theory Spec2Isabelle
  imports Complex_Main "HOL-Library.Multiset"
begin

section \<open>Data model\<close>

text \<open>
  The program keeps all geometry in numpy arrays of floats. A one-dimensional array is
  modelled as a list of reals and a two-dimensional array as a list of rows. The reals
  stand in for IEEE doubles: infinities and NaN are outside the model, and so is
  rounding, except in the orientation advance, which is also given with its rounding
  written out (\<open>increaseAngles_fl\<close>). The one place where the program produces non-finite numbers without raising is the
  perspective division by a zero Z: both screen coordinates of such a vertex are an
  infinity or a NaN, and the model records the whole row as \<open>None\<close>.
  Every place where Python or numpy raises is a branch returning \<open>Inl\<close> of the
  exception; the object state is then dropped, since no caller catches the exception.
\<close>

type_synonym vec = "real list"
type_synonym matrix = "real list list"

datatype error = ValueError | IndexError | ZeroDivisionError

text \<open>
  Class \<open>VectorObjectSurface\<close>. The field \<open>nodes\<close> of a surface (its list of vertex
  indices, Python ints) is called \<open>snodes\<close> here, because \<open>nodes\<close> is also a field of
  \<open>VectorObject\<close>.
\<close>

record VectorObjectSurface =
  idnum :: int
  snodes :: "int list"
  color :: "int \<times> int \<times> int"
  edgeWidth :: int
  zpos :: real

text \<open>Class \<open>VectorObject\<close>; \<open>angleScale\<close> is never assigned after \<open>__init__\<close>.\<close>

record VectorObject =
  position :: vec
  angles :: vec
  rotationMatrix :: matrix
  rotateSpeed :: vec
  nodes :: matrix
  rotatedNodes :: matrix
  transNodes :: "vec option list"
  surfaces :: "VectorObjectSurface list"
  minShade :: real

definition angleScale :: real where
  "angleScale = (2 * pi) / 360"

definition VectorObject_init :: VectorObject where
  "VectorObject_init =
     \<lparr> position = [0, 0, 0, 1],
       angles = [0, 0, 0],
       rotationMatrix = [[0, 0, 0], [0, 0, 0], [0, 0, 0]],
       rotateSpeed = [0, 0, 0],
       nodes = [],
       rotatedNodes = [],
       transNodes = [],
       surfaces = [],
       minShade = 0.2 \<rparr>"

definition VectorObjectSurface_init :: VectorObjectSurface where
  "VectorObjectSurface_init =
     \<lparr> idnum = 0, snodes = [], color = (0, 0, 0), edgeWidth = 0, zpos = 0 \<rparr>"

section \<open>The numpy operations the program uses\<close>

text \<open>Running a fallible function over a list stops at the first exception.\<close>

fun map_err :: "('a \<Rightarrow> error + 'b) \<Rightarrow> 'a list \<Rightarrow> error + 'b list" where
  "map_err f [] = Inr []"
| "map_err f (x # xs) =
     (case f x of
        Inl e \<Rightarrow> Inl e
      | Inr y \<Rightarrow> (case map_err f xs of Inl e \<Rightarrow> Inl e | Inr ys \<Rightarrow> Inr (y # ys)))"

text \<open>
  \<open>a += b\<close> on one-dimensional arrays: \<open>b\<close> is broadcast to the shape of \<open>a\<close>, which
  succeeds when the lengths agree or \<open>b\<close> has a single element.
\<close>

definition np_iadd :: "vec \<Rightarrow> vec \<Rightarrow> error + vec" where
  "np_iadd a b =
     (if length b = length a then Inr (map2 (+) a b)
      else if length b = 1 then Inr (map (\<lambda>x. x + hd b) a)
      else Inl ValueError)"

text \<open>Indexing with a Python int: negative indices count from the end.\<close>

definition py_index :: "'a list \<Rightarrow> int \<Rightarrow> error + 'a" where
  "py_index xs i =
     (if 0 \<le> i \<and> i < int (length xs) then Inr (xs ! nat i)
      else if - int (length xs) \<le> i \<and> i < 0 then Inr (xs ! nat (int (length xs) + i))
      else Inl IndexError)"

text \<open>The inner product of two vectors, and a row vector times a matrix.\<close>

definition dot_vec :: "vec \<Rightarrow> vec \<Rightarrow> real" where
  "dot_vec u w = sum_list (map2 (*) u w)"

definition ncols :: "matrix \<Rightarrow> nat" where
  "ncols B = (case B of [] \<Rightarrow> 0 | r # _ \<Rightarrow> length r)"

definition column :: "matrix \<Rightarrow> nat \<Rightarrow> vec" where
  "column B j = map (\<lambda>r. r ! j) B"

definition vec_mat :: "vec \<Rightarrow> matrix \<Rightarrow> vec" where
  "vec_mat r B = map (\<lambda>j. dot_vec r (column B j)) [0..<ncols B]"

text \<open>
  \<open>np.dot\<close> on two-dimensional arrays: \<open>A\<close> must have as many columns as \<open>B\<close> has rows.
  An array with no rows keeps its column count in numpy, and a list of rows does not:
  the argument \<open>c\<close> is the column count of \<open>A\<close> when \<open>A\<close> has no rows.
\<close>

definition np_dot :: "nat \<Rightarrow> matrix \<Rightarrow> matrix \<Rightarrow> error + matrix" where
  "np_dot c A B =
     (if (if A = [] then c = length B else list_all (\<lambda>r. length r = length B) A)
         \<and> list_all (\<lambda>r. length r = ncols B) B
      then Inr (map (\<lambda>r. vec_mat r B) A)
      else Inl ValueError)"

text \<open>\<open>np.vstack((M, row))\<close>: the row must be as long as the rows of \<open>M\<close>.\<close>

definition np_vstack :: "matrix \<Rightarrow> vec \<Rightarrow> error + matrix" where
  "np_vstack M row =
     (if list_all (\<lambda>r. length r = length row) M then Inr (M @ [row]) else Inl ValueError)"

text \<open>\<open>np.hstack((node_array, np.ones((len(node_array), 1))))\<close>.\<close>

definition hstack_ones :: "matrix \<Rightarrow> matrix" where
  "hstack_ones node_array = map (\<lambda>r. r @ [1]) node_array"

section \<open>VectorObject\<close>

definition setPosition :: "VectorObject \<Rightarrow> vec \<Rightarrow> VectorObject" where
  "setPosition obj p = obj\<lparr>position := p\<rparr>"

definition setRotateSpeed :: "VectorObject \<Rightarrow> vec \<Rightarrow> VectorObject" where
  "setRotateSpeed obj a = obj\<lparr>rotateSpeed := a\<rparr>"

definition addNodes :: "VectorObject \<Rightarrow> matrix \<Rightarrow> VectorObject" where
  "addNodes obj node_array =
     obj\<lparr>nodes := hstack_ones node_array, rotatedNodes := node_array\<rparr>"

definition addSurfaces ::
  "VectorObject \<Rightarrow> int \<Rightarrow> int \<times> int \<times> int \<Rightarrow> int \<Rightarrow> int list \<Rightarrow> VectorObject" where
  "addSurfaces obj i c w node_list =
     obj\<lparr>surfaces := surfaces obj @
       [VectorObjectSurface_init\<lparr>idnum := i, color := c, edgeWidth := w, snodes := node_list\<rparr>]\<rparr>"

text \<open>
  The body of the loop of \<open>increaseAngles\<close> for one index: two independent \<open>if\<close>
  statements, the second reading the value the first may have written.
\<close>

definition wrap360 :: "real \<Rightarrow> real" where
  "wrap360 a =
     (let a1 = (if a \<ge> 360 then a - 360 else a)
      in if a1 < 0 then a1 + 360 else a1)"

fun wrap_loop :: "nat list \<Rightarrow> vec \<Rightarrow> error + vec" where
  "wrap_loop [] a = Inr a"
| "wrap_loop (i # is) a =
     (if i < length a then wrap_loop is (a[i := wrap360 (a ! i)]) else Inl IndexError)"

definition increaseAngles :: "VectorObject \<Rightarrow> error + VectorObject" where
  "increaseAngles obj =
     (case np_iadd (angles obj) (rotateSpeed obj) of
        Inl e \<Rightarrow> Inl e
      | Inr a \<Rightarrow>
          (case wrap_loop [0, 1, 2] a of
             Inl e \<Rightarrow> Inl e
           | Inr a' \<Rightarrow> Inr (obj\<lparr>angles := a'\<rparr>)))"

text \<open>
  The definitions above compute with exact real numbers. The program computes with
  doubles: the sum \<open>angles += rotateSpeed\<close> and each of \<open>-= 360\<close> and \<open>+= 360\<close> is
  rounded to a double. The same function once more, with the rounding \<open>fl\<close> of every
  arithmetic operation written out (the comparisons with 360 and 0 are exact in
  doubles). With the identity for \<open>fl\<close> it is \<open>increaseAngles\<close>.
\<close>

definition np_iadd_fl :: "(real \<Rightarrow> real) \<Rightarrow> vec \<Rightarrow> vec \<Rightarrow> error + vec" where
  "np_iadd_fl fl a b =
     (if length b = length a then Inr (map2 (\<lambda>x y. fl (x + y)) a b)
      else if length b = 1 then Inr (map (\<lambda>x. fl (x + hd b)) a)
      else Inl ValueError)"

definition wrap360_fl :: "(real \<Rightarrow> real) \<Rightarrow> real \<Rightarrow> real" where
  "wrap360_fl fl a =
     (let a1 = (if a \<ge> 360 then fl (a - 360) else a)
      in if a1 < 0 then fl (a1 + 360) else a1)"

fun wrap_loop_fl :: "(real \<Rightarrow> real) \<Rightarrow> nat list \<Rightarrow> vec \<Rightarrow> error + vec" where
  "wrap_loop_fl fl [] a = Inr a"
| "wrap_loop_fl fl (i # is) a =
     (if i < length a then wrap_loop_fl fl is (a[i := wrap360_fl fl (a ! i)])
      else Inl IndexError)"

definition increaseAngles_fl :: "(real \<Rightarrow> real) \<Rightarrow> VectorObject \<Rightarrow> error + VectorObject" where
  "increaseAngles_fl fl obj =
     (case np_iadd_fl fl (angles obj) (rotateSpeed obj) of
        Inl e \<Rightarrow> Inl e
      | Inr a \<Rightarrow>
          (case wrap_loop_fl fl [0, 1, 2] a of
             Inl e \<Rightarrow> Inl e
           | Inr a' \<Rightarrow> Inr (obj\<lparr>angles := a'\<rparr>)))"

text \<open>
  The rounding of doubles: to the nearest number with a significand of 53 bits, a tie
  going to the even significand. \<open>rne\<close> rounds a real to the nearest integer, ties to
  even; \<open>fl64\<close> scales by the power of two that brings the significand into
  \<open>[2^52, 2^53)\<close>. The exponent is not bounded here: overflow and subnormal numbers,
  which begin beyond \<open>10^308\<close> and below \<open>10^-307\<close>, are left out.
\<close>

definition rne :: "real \<Rightarrow> int" where
  "rne y =
     (let f = \<lfloor>y\<rfloor>; d = y - of_int f
      in if d < 1 / 2 then f else if 1 / 2 < d then f + 1 else if even f then f else f + 1)"

definition fl64 :: "real \<Rightarrow> real" where
  "fl64 x =
     (if x = 0 then 0
      else (let q = 2 powr of_int (\<lfloor>log 2 \<bar>x\<bar>\<rfloor> - 52) in of_int (rne (x / q)) * q))"

text \<open>
  \<open>setRotationMatrix\<close>: unpacking \<open>np.sin(angles * angleScale)\<close> into three names
  raises \<open>ValueError\<close> unless there are exactly three angles.
\<close>

definition setRotationMatrix :: "VectorObject \<Rightarrow> error + VectorObject" where
  "setRotationMatrix obj =
     (case angles obj of
        [ax, ay, az] \<Rightarrow>
          (let sx = sin (ax * angleScale); sy = sin (ay * angleScale);
               sz = sin (az * angleScale);
               cx = cos (ax * angleScale); cy = cos (ay * angleScale);
               cz = cos (az * angleScale)
           in Inr (obj\<lparr>rotationMatrix :=
                [[cy * cz, - cy * sz, sy],
                 [cx * sz + cz * sx * sy, cx * cz - sx * sy * sz, - cy * sx],
                 [sx * sz - cx * cz * sy, cz * sx + cx * sy * sz, cx * cy]]\<rparr>))
      | _ \<Rightarrow> Inl ValueError)"

text \<open>
  \<open>VectorObject.rotate\<close> (the name \<open>rotate\<close> is taken by a list function). A \<open>nodes\<close>
  array without rows has four columns, from \<open>__init__\<close> or from \<open>addNodes\<close> on an empty
  array of points.
\<close>

definition rotate_obj :: "VectorObject \<Rightarrow> error + VectorObject" where
  "rotate_obj obj =
     (case np_vstack (rotationMatrix obj) (take 3 (position obj)) of
        Inl e \<Rightarrow> Inl e
      | Inr m \<Rightarrow>
          (case np_dot 4 (nodes obj) m of
             Inl e \<Rightarrow> Inl e
           | Inr rn \<Rightarrow> Inr (obj\<lparr>rotatedNodes := rn\<rparr>)))"

text \<open>
  \<open>transform\<close>, one row at a time: columns 0 and 1 times \<open>zScale\<close>, divided by column 2,
  plus \<open>midScreen\<close>, with numpy's broadcasting of the three operands.
  \<^item> A row of three or more columns gives two columns divided by one; \<open>midScreen\<close> must
    then have two elements or one. A zero in column 2 raises nothing and makes both
    results of the row an infinity or a NaN: the row is \<open>None\<close>.
  \<^item> A row of two columns gives two columns divided by none, which cannot be broadcast.
  \<^item> A row of one column or none gives an empty row, to which only a \<open>midScreen\<close> of at
    most one element can be added.
  An array without rows has the three columns of \<open>__init__\<close> and of the product in
  \<open>rotate\<close>. Overflow of the quotient to an infinity is outside the real numbers.
\<close>

definition transform_row :: "real \<Rightarrow> vec \<Rightarrow> vec \<Rightarrow> error + vec option" where
  "transform_row zScale midScreen r =
     (if 3 \<le> length r then
        (case midScreen of
           [mx, my] \<Rightarrow>
             (if r ! 2 = 0 then Inr None
              else Inr (Some [(r ! 0 * zScale) / (r ! 2) + mx, (r ! 1 * zScale) / (r ! 2) + my]))
         | [m] \<Rightarrow>
             (if r ! 2 = 0 then Inr None
              else Inr (Some [(r ! 0 * zScale) / (r ! 2) + m, (r ! 1 * zScale) / (r ! 2) + m]))
         | _ \<Rightarrow> Inl ValueError)
      else if length r = 2 then Inl ValueError
      else if length midScreen \<le> 1 then Inr (Some [])
      else Inl ValueError)"

definition transform :: "VectorObject \<Rightarrow> real \<Rightarrow> vec \<Rightarrow> error + VectorObject" where
  "transform obj zScale midScreen =
     (if rotatedNodes obj = [] \<and> length midScreen \<noteq> 1 \<and> length midScreen \<noteq> 2
      then Inl ValueError
      else (case map_err (transform_row zScale midScreen) (rotatedNodes obj) of
              Inl e \<Rightarrow> Inl e
            | Inr tn \<Rightarrow> Inr (obj\<lparr>transNodes := tn\<rparr>)))"

text \<open>
  \<open>rotatedNodes[node, 2]\<close>: a row index and a column index, each checked against
  the shape.
\<close>

definition np_index2 :: "matrix \<Rightarrow> int \<Rightarrow> int \<Rightarrow> error + real" where
  "np_index2 A i j = (case py_index A i of Inl e \<Rightarrow> Inl e | Inr r \<Rightarrow> py_index r j)"

definition setZPos :: "VectorObjectSurface \<Rightarrow> real \<Rightarrow> VectorObjectSurface" where
  "setZPos s z = s\<lparr>zpos := z\<rparr>"

text \<open>
  One pass of the loop of \<open>updateSurfaceZPos\<close>. The list comprehension runs first
  (an invalid index raises \<open>IndexError\<close>); then the sum is divided by \<open>len\<close>, which
  raises \<open>ZeroDivisionError\<close> for a surface with no vertex index.
\<close>

definition surface_zpos :: "matrix \<Rightarrow> VectorObjectSurface \<Rightarrow> error + VectorObjectSurface" where
  "surface_zpos rn s =
     (case map_err (\<lambda>node. np_index2 rn node 2) (snodes s) of
        Inl e \<Rightarrow> Inl e
      | Inr zs \<Rightarrow>
          (if length (snodes s) = 0 then Inl ZeroDivisionError
           else Inr (setZPos s (sum_list zs / real (length (snodes s))))))"

definition updateSurfaceZPos :: "VectorObject \<Rightarrow> error + VectorObject" where
  "updateSurfaceZPos obj =
     (case map_err (surface_zpos (rotatedNodes obj)) (surfaces obj) of
        Inl e \<Rightarrow> Inl e
      | Inr ss \<Rightarrow> Inr (obj\<lparr>surfaces := ss\<rparr>))"

text \<open>
  \<open>list.sort(key=..., reverse=True)\<close> is Python's built-in stable sort, run as if every
  comparison were reversed: the result is descending in the key, and elements with
  equal keys keep their order. It is modelled by an insertion sort that puts an element
  in front of the first element whose key is not greater.
\<close>

fun insort_desc :: "('a \<Rightarrow> real) \<Rightarrow> 'a \<Rightarrow> 'a list \<Rightarrow> 'a list" where
  "insort_desc k x [] = [x]"
| "insort_desc k x (y # ys) =
     (if k y \<le> k x then x # y # ys else y # insort_desc k x ys)"

definition sort_reverse :: "('a \<Rightarrow> real) \<Rightarrow> 'a list \<Rightarrow> 'a list" where
  "sort_reverse k xs = foldr (insort_desc k) xs []"

definition sortSurfacesByZPos :: "VectorObject \<Rightarrow> VectorObject" where
  "sortSurfacesByZPos obj = obj\<lparr>surfaces := sort_reverse zpos (surfaces obj)\<rparr>"

section \<open>VectorViewer\<close>





text \<open>
  Class \<open>VectorViewer\<close>. The screen and the clock belong to pygame; of the screen the
  model keeps one counter, \<open>flips\<close>, the number of frames presented by
  \<open>pygame.display.flip()\<close>.
\<close>

record VectorViewer =
  width :: real
  height :: real
  VectorObjs :: "VectorObject list"
  midScreen :: vec
  zScale :: real
  running :: bool
  paused :: bool
  flips :: nat










text \<open>
  \<open>VectorViewer.display\<close>: the depth pass of each object (\<open>updateSurfaceZPos\<close>, then
  \<open>sortSurfacesByZPos\<close>), then the gathering of the screen points of each surface,
  \<open>transNodes[node][:2]\<close>, which raises on an invalid index, and the two drawing calls:
  \<open>pygame.draw.aalines\<close> raises \<open>ValueError\<close> for fewer than two points and
  \<open>pygame.draw.polygon\<close> for fewer than three. The pixels pygame draws are outside the
  model.
\<close>

definition node_list ::
  "vec option list \<Rightarrow> VectorObjectSurface \<Rightarrow> error + vec option list" where
  "node_list tn s =
     map_err (\<lambda>node. map_sum id (map_option (take 2)) (py_index tn node)) (snodes s)"

definition depth_pass :: "VectorObject \<Rightarrow> error + VectorObject" where
  "depth_pass obj =
     (case updateSurfaceZPos obj of
        Inl e \<Rightarrow> Inl e
      | Inr o1 \<Rightarrow> Inr (sortSurfacesByZPos o1))"






section \<open>The object of the main program\<close>

text \<open>The cube that the script sets up under \<open>__main__\<close>, and its viewer.\<close>

definition main_node_array :: matrix where
  "main_node_array =
     [[100, 100, 100], [100, 100, - 100], [100, - 100, - 100], [100, - 100, 100],
      [- 100, 100, 100], [- 100, 100, - 100], [- 100, - 100, - 100], [- 100, - 100, 100]]"

definition main_vobj :: VectorObject where
  "main_vobj =
     (let o0 = addNodes VectorObject_init main_node_array;
          o1 = addSurfaces o0 0 (255, 255, 255) 0 [0, 3, 2, 1];
          o2 = addSurfaces o1 1 (255, 255, 255) 0 [4, 5, 6, 7];
          o3 = addSurfaces o2 2 (150, 150, 150) 0 [0, 1, 5, 4];
          o4 = addSurfaces o3 3 (150, 150, 150) 0 [3, 7, 6, 2];
          o5 = addSurfaces o4 4 (80, 80, 80) 0 [0, 4, 7, 3];
          o6 = addSurfaces o5 5 (80, 80, 80) 0 [1, 2, 6, 5];
          o7 = setRotateSpeed o6 [1, - 0.3, 0.55]
      in setPosition o7 [0, 0, 1500, 1])"


section \<open>Notions of the specification\<close>

text \<open>
  The rotation-matrix-build step followed by the apply-transform step, as
  \<open>VectorViewer.rotate\<close> calls them, and the world-space vertices they leave.
\<close>

definition build_and_rotate :: "VectorObject \<Rightarrow> error + VectorObject" where
  "build_and_rotate obj =
     (case setRotationMatrix obj of Inl e \<Rightarrow> Inl e | Inr o1 \<Rightarrow> rotate_obj o1)"

definition world_vertices :: "VectorObject \<Rightarrow> error + matrix" where
  "world_vertices obj = map_sum id rotatedNodes (build_and_rotate obj)"


text \<open>
  The elementary rotation matrices about the X, Y and Z axes by an angle in radians,
  in their standard form, the product of matrices, and degrees as radians.
\<close>

definition Rx :: "real \<Rightarrow> matrix" where
  "Rx t = [[1, 0, 0], [0, cos t, - sin t], [0, sin t, cos t]]"

definition Ry :: "real \<Rightarrow> matrix" where
  "Ry t = [[cos t, 0, sin t], [0, 1, 0], [- sin t, 0, cos t]]"

definition Rz :: "real \<Rightarrow> matrix" where
  "Rz t = [[cos t, - sin t, 0], [sin t, cos t, 0], [0, 0, 1]]"

definition mat_mul :: "matrix \<Rightarrow> matrix \<Rightarrow> matrix" where
  "mat_mul A B = map (\<lambda>r. vec_mat r B) A"

definition radians :: "real \<Rightarrow> real" where
  "radians d = d * pi / 180"

text \<open>
  Compositions of rotations under the row-vector convention. A point with
  object-local coordinates \<open>v\<close> lies at \<open>v * O\<close> in the world, where \<open>O\<close> is the matrix
  of the object's orientation, at first the identity. Turning the object by \<open>E\<close> about
  a fixed axis of the world acts on its world coordinates: the orientation becomes
  \<open>O * E\<close>. Turning it by \<open>E\<close> about its own axis, in its local frame, acts on its local
  coordinates: the orientation becomes \<open>E * O\<close>. An extrinsic composition is a sequence
  of turns about fixed axes, an intrinsic composition a sequence of turns in the local
  frame, each list in the order in which the turns are applied.
\<close>

definition identity3 :: matrix where
  "identity3 = [[1, 0, 0], [0, 1, 0], [0, 0, 1]]"

definition turn_fixed :: "matrix \<Rightarrow> matrix \<Rightarrow> matrix" where
  "turn_fixed O' E = mat_mul O' E"

definition turn_local :: "matrix \<Rightarrow> matrix \<Rightarrow> matrix" where
  "turn_local O' E = mat_mul E O'"

definition extrinsic :: "matrix list \<Rightarrow> matrix" where
  "extrinsic Es = foldl turn_fixed identity3 Es"

definition intrinsic :: "matrix list \<Rightarrow> matrix" where
  "intrinsic Es = foldl turn_local identity3 Es"

text \<open>The naive transform of one vertex: rotate it by \<open>R\<close>, then add \<open>p\<close>.\<close>

definition rotate_then_add :: "matrix \<Rightarrow> vec \<Rightarrow> vec \<Rightarrow> vec" where
  "rotate_then_add R p v = map2 (+) (vec_mat v R) p"

text \<open>
  Valid vertex indices for an object with \<open>n\<close> vertices, the vertex an index names,
  and the arithmetic mean of the Z coordinates of the vertices a list of indices names.
\<close>

definition valid_index :: "nat \<Rightarrow> int \<Rightarrow> bool" where
  "valid_index n i = (- int n \<le> i \<and> i < int n)"

definition vertex_of :: "matrix \<Rightarrow> int \<Rightarrow> vec" where
  "vertex_of rn i = rn ! nat (if i < 0 then int (length rn) + i else i)"

definition mean_z :: "matrix \<Rightarrow> int list \<Rightarrow> real" where
  "mean_z rn idxs = sum_list (map (\<lambda>i. vertex_of rn i ! 2) idxs) / real (length idxs)"

text \<open>A surface without its derived depth.\<close>

definition without_depth :: "VectorObjectSurface \<Rightarrow> VectorObjectSurface" where
  "without_depth s = s\<lparr>zpos := 0\<rparr>"




section \<open>Orientation advance\<close>

lemma wrap_loop_three:
  "wrap_loop [0, 1, 2] [x, y, z] = Inr [wrap360 x, wrap360 y, wrap360 z]"
  by simp

lemma wrap360_range:
  assumes "- 360 \<le> a" and "a < 720"
  shows "0 \<le> wrap360 a \<and> wrap360 a < 360"
  using assms by (simp add: wrap360_def Let_def)


lemma length_three:
  assumes "length xs = 3"
  obtains x y z where "xs = [x, y, z]"
  using assms by (auto simp: numeral_3_eq_3 length_Suc_conv)

text \<open>
  Claim C8. An object at orientation (0,0,0) with angular velocity (400,0,0) has
  orientation exactly (40,0,0) after one call of \<open>increaseAngles\<close>; nothing else of
  the object changes.
\<close>

theorem increaseAngles_400:
  assumes "angles obj = [0, 0, 0]" and "rotateSpeed obj = [400, 0, 0]"
  shows "increaseAngles obj = Inr (obj\<lparr>angles := [40, 0, 0]\<rparr>)"
  using assms by (simp add: increaseAngles_def np_iadd_def wrap360_def)

theorem increaseAngles_400_witness:
  "angles (setRotateSpeed VectorObject_init [400, 0, 0]) = [0, 0, 0]
   \<and> rotateSpeed (setRotateSpeed VectorObject_init [400, 0, 0]) = [400, 0, 0]
   \<and> increaseAngles (setRotateSpeed VectorObject_init [400, 0, 0])
       = Inr ((setRotateSpeed VectorObject_init [400, 0, 0])\<lparr>angles := [40, 0, 0]\<rparr>)"
  using increaseAngles_400 [of "setRotateSpeed VectorObject_init [400, 0, 0]"]
  by (simp add: VectorObject_init_def setRotateSpeed_def)

section \<open>Rounding of doubles in the orientation advance\<close>

lemma rne_bounds: "\<lfloor>y\<rfloor> \<le> rne y \<and> rne y \<le> \<lfloor>y\<rfloor> + 1"
  by (simp add: rne_def Let_def)

lemma rne_of_int: "rne (of_int n) = n"
  by (simp add: rne_def Let_def)

lemma rne_mono:
  assumes "x \<le> y"
  shows "rne x \<le> rne y"
proof (cases "\<lfloor>x\<rfloor> < \<lfloor>y\<rfloor>")
  case True
  then show ?thesis
    using rne_bounds [of x] rne_bounds [of y] by linarith
next
  case False
  then have "\<lfloor>x\<rfloor> = \<lfloor>y\<rfloor>"
    using floor_mono [OF assms] by linarith
  then show ?thesis
    using assms by (auto simp: rne_def Let_def)
qed

lemma rne_near:
  assumes "of_int n - 1 / 2 < y" and "y < of_int n + 1 / 2"
  shows "rne y = n"
proof -
  have "\<lfloor>y\<rfloor> = n \<or> \<lfloor>y\<rfloor> = n - 1"
    using assms by linarith
  then show ?thesis
    using assms by (auto simp: rne_def Let_def)
qed

lemma floor_minus_nonint:
  fixes y :: real
  assumes "y \<noteq> of_int \<lfloor>y\<rfloor>"
  shows "\<lfloor>- y\<rfloor> = - \<lfloor>y\<rfloor> - 1"
proof (rule floor_unique)
  have lo: "of_int \<lfloor>y\<rfloor> < y"
    using assms of_int_floor_le [of y] by linarith
  have up: "y < of_int \<lfloor>y\<rfloor> + 1"
    by linarith
  have "- real_of_int \<lfloor>y\<rfloor> - 1 \<le> - y" using up by linarith
  then show "of_int (- \<lfloor>y\<rfloor> - 1) \<le> - y" by simp
  have "- y < - real_of_int \<lfloor>y\<rfloor>" using lo by linarith
  then show "- y < of_int (- \<lfloor>y\<rfloor> - 1) + 1" by simp
qed

lemma rne_minus: "rne (- y) = - rne y"
proof (cases "y = of_int \<lfloor>y\<rfloor>")
  case True
  then obtain n where "y = of_int n" by blast
  then have "rne y = n" and "rne (- y) = - n"
    using rne_of_int [of n] rne_of_int [of "- n"] by simp_all
  then show ?thesis by simp
next
  case False
  then have f: "\<lfloor>- y\<rfloor> = - \<lfloor>y\<rfloor> - 1" by (rule floor_minus_nonint)
  show ?thesis
    unfolding rne_def Let_def f using False by (auto simp: algebra_simps)
qed


lemma fl64_minus: "fl64 (- x) = - fl64 x"
  by (simp add: fl64_def Let_def rne_minus)

lemma binade:
  fixes x :: real
  assumes "0 < x"
  shows "2 powr of_int \<lfloor>log 2 x\<rfloor> \<le> x" and "x < 2 powr of_int (\<lfloor>log 2 x\<rfloor> + 1)"
proof -
  have "of_int \<lfloor>log 2 x\<rfloor> \<le> log 2 x" by simp
  then show "2 powr of_int \<lfloor>log 2 x\<rfloor> \<le> x"
    using le_log_iff [of 2 x "of_int \<lfloor>log 2 x\<rfloor>"] assms by simp
  have "log 2 x < of_int (\<lfloor>log 2 x\<rfloor> + 1)" by linarith
  then show "x < 2 powr of_int (\<lfloor>log 2 x\<rfloor> + 1)"
    using log_less_iff [of 2 x "of_int (\<lfloor>log 2 x\<rfloor> + 1)"] assms by simp
qed

lemma floor_log_eq:
  fixes x :: real
  assumes "0 < x" and "2 powr of_int e \<le> x" and "x < 2 powr of_int (e + 1)"
  shows "\<lfloor>log 2 x\<rfloor> = e"
proof (rule floor_unique)
  show "of_int e \<le> log 2 x"
    using le_log_iff [of 2 x "of_int e"] assms by simp
  have "log 2 x < of_int (e + 1)"
    using log_less_iff [of 2 x "of_int (e + 1)"] assms by simp
  then show "log 2 x < of_int e + 1" by simp
qed

lemma fl64_pos_form:
  assumes "0 < x"
  shows "fl64 x = of_int (rne (x / 2 powr of_int (\<lfloor>log 2 x\<rfloor> - 52)))
                    * 2 powr of_int (\<lfloor>log 2 x\<rfloor> - 52)"
  using assms by (simp add: fl64_def Let_def)

lemma quantum_times:
  fixes e :: int
  shows "(2 :: real) powr of_int (e - 52) * 2 ^ 52 = 2 powr of_int e"
    and "(2 :: real) powr of_int (e - 52) * 2 ^ 53 = 2 powr of_int (e + 1)"
proof -
  have "(2 :: real) powr of_int e = 2 powr (of_int (e - 52) + 52)" by simp
  also have "\<dots> = 2 powr of_int (e - 52) * 2 powr 52" by (rule powr_add)
  finally show "(2 :: real) powr of_int (e - 52) * 2 ^ 52 = 2 powr of_int e" by simp
  have "(2 :: real) powr of_int (e + 1) = 2 powr (of_int (e - 52) + 53)"
    by (simp add: algebra_simps)
  also have "\<dots> = 2 powr of_int (e - 52) * 2 powr 53" by (rule powr_add)
  finally show "(2 :: real) powr of_int (e - 52) * 2 ^ 53 = 2 powr of_int (e + 1)" by simp
qed

lemma fl64_pos_bounds:
  assumes "0 < x"
  shows "2 powr of_int \<lfloor>log 2 x\<rfloor> \<le> fl64 x"
    and "fl64 x \<le> 2 powr of_int (\<lfloor>log 2 x\<rfloor> + 1)"
proof -
  let ?e = "\<lfloor>log 2 x\<rfloor>"
  let ?q = "2 powr of_int (?e - 52) :: real"
  let ?n = "rne (x / ?q)"
  have q: "0 < ?q" by simp
  have f: "fl64 x = of_int ?n * ?q" by (rule fl64_pos_form [OF assms])
  have e1: "2 ^ 52 * ?q = 2 powr of_int ?e"
    by (subst mult.commute) (rule quantum_times(1))
  have e2: "2 ^ 53 * ?q = 2 powr of_int (?e + 1)"
    by (subst mult.commute) (rule quantum_times(2))
  have lo: "2 ^ 52 * ?q \<le> x"
    unfolding e1 by (rule binade(1) [OF assms])
  have up: "x \<le> 2 ^ 53 * ?q"
    unfolding e2 using binade(2) [OF assms] by (rule less_imp_le)
  have "of_int (2 ^ 52) \<le> x / ?q"
    using lo q by (simp add: pos_le_divide_eq)
  then have "rne (of_int (2 ^ 52)) \<le> ?n" by (rule rne_mono)
  then have "(2 :: int) ^ 52 \<le> ?n" by (simp only: rne_of_int)
  then have "(2 :: real) ^ 52 \<le> of_int ?n"
    by (metis of_int_le_iff of_int_numeral of_int_power)
  then have a: "2 ^ 52 * ?q \<le> of_int ?n * ?q"
    using q by (simp only: mult_le_cancel_right_pos)
  show "2 powr of_int ?e \<le> fl64 x"
    unfolding f e1 [symmetric] by (rule a)
  have "x / ?q \<le> of_int (2 ^ 53)"
    using up q by (simp add: pos_divide_le_eq)
  then have "?n \<le> rne (of_int (2 ^ 53))" by (rule rne_mono)
  then have "?n \<le> (2 :: int) ^ 53" by (simp only: rne_of_int)
  then have "of_int ?n \<le> (2 :: real) ^ 53"
    by (metis of_int_le_iff of_int_numeral of_int_power)
  then have b: "of_int ?n * ?q \<le> 2 ^ 53 * ?q"
    using q by (simp only: mult_le_cancel_right_pos)
  show "fl64 x \<le> 2 powr of_int (?e + 1)"
    unfolding f e2 [symmetric] by (rule b)
qed

lemma fl64_pos:
  assumes "0 < x"
  shows "0 < fl64 x"
proof -
  have "(0 :: real) < 2 powr of_int \<lfloor>log 2 x\<rfloor>" by simp
  then show ?thesis using fl64_pos_bounds(1) [OF assms] by linarith
qed

lemma fl64_zero: "fl64 0 = 0"
  by (simp add: fl64_def)

lemma fl64_mono_pos:
  assumes "0 < x" and "x \<le> y"
  shows "fl64 x \<le> fl64 y"
proof -
  have y: "0 < y" using assms by linarith
  let ?ex = "\<lfloor>log 2 x\<rfloor>" and ?ey = "\<lfloor>log 2 y\<rfloor>"
  have "log 2 x \<le> log 2 y" using assms y by simp
  then have le: "?ex \<le> ?ey" by (rule floor_mono)
  show ?thesis
  proof (cases "?ex = ?ey")
    case True
    let ?q = "2 powr of_int (?ex - 52) :: real"
    have q: "0 < ?q" by simp
    have "x / ?q \<le> y / ?q"
      using assms(2) q by (simp add: divide_le_cancel)
    then have "rne (x / ?q) \<le> rne (y / ?q)" by (rule rne_mono)
    then have "of_int (rne (x / ?q)) * ?q \<le> of_int (rne (y / ?q)) * ?q"
      using q by (simp only: mult_le_cancel_right_pos of_int_le_iff)
    then show ?thesis
      unfolding fl64_pos_form [OF assms(1)] fl64_pos_form [OF y] True .
  next
    case False
    then have "?ex + 1 \<le> ?ey" using le by linarith
    then have "(2 :: real) powr of_int (?ex + 1) \<le> 2 powr of_int ?ey"
      by (intro powr_mono) simp_all
    then show ?thesis
      using fl64_pos_bounds(2) [OF assms(1)] fl64_pos_bounds(1) [OF y] by linarith
  qed
qed

lemma fl64_mono: "mono fl64"
proof (rule monoI)
  fix x y :: real
  assume xy: "x \<le> y"
  consider "0 < x" | "x = 0" | "x < 0" by linarith
  then show "fl64 x \<le> fl64 y"
  proof cases
    case 1
    then show ?thesis using xy by (rule fl64_mono_pos)
  next
    case 2
    then show ?thesis
      using xy fl64_pos [of y] by (cases "y = 0") (simp_all add: fl64_zero less_eq_real_def)
  next
    case 3
    then have nx: "0 < fl64 (- x)" by (intro fl64_pos) simp
    consider "y < 0" | "y = 0" | "0 < y" by linarith
    then show ?thesis
    proof cases
      case 1
      then have "fl64 (- y) \<le> fl64 (- x)"
        using xy by (intro fl64_mono_pos) simp_all
      then show ?thesis by (simp add: fl64_minus)
    next
      case 2
      then show ?thesis using nx by (simp add: fl64_minus fl64_zero)
    next
      case 3
      then show ?thesis using nx fl64_pos [of y] by (simp add: fl64_minus)
    qed
  qed
qed

lemma fl64_exact:
  assumes "0 < x" and "2 powr of_int e \<le> x" and "x < 2 powr of_int (e + 1)"
    and "x / 2 powr of_int (e - 52) = of_int n"
  shows "fl64 x = x"
proof -
  have e: "\<lfloor>log 2 x\<rfloor> = e" using assms(1-3) by (rule floor_log_eq)
  have "fl64 x = of_int n * 2 powr of_int (e - 52)"
    unfolding fl64_pos_form [OF assms(1)] e assms(4) rne_of_int ..
  also have "\<dots> = x"
    using assms(4) by (simp add: field_simps)
  finally show ?thesis .
qed

lemma fl64_near:
  assumes "0 < x" and "2 powr of_int e \<le> x" and "x < 2 powr of_int (e + 1)"
    and "of_int n - 1 / 2 < x / 2 powr of_int (e - 52)"
    and "x / 2 powr of_int (e - 52) < of_int n + 1 / 2"
  shows "fl64 x = of_int n * 2 powr of_int (e - 52)"
proof -
  have e: "\<lfloor>log 2 x\<rfloor> = e" using assms(1-3) by (rule floor_log_eq)
  have "rne (x / 2 powr of_int (e - 52)) = n"
    using assms(4,5) by (rule rne_near)
  then show ?thesis
    unfolding fl64_pos_form [OF assms(1)] e by simp
qed

lemma fl64_360: "fl64 360 = 360"
  by (rule fl64_exact [where e = 8 and n = "360 * 2 ^ 44"]) (simp_all add: powr_minus)

lemma fl64_720: "fl64 720 = 720"
  by (rule fl64_exact [where e = 9 and n = "720 * 2 ^ 43"]) (simp_all add: powr_minus)

lemma fl64_minus_360: "fl64 (- 360) = - 360"
  by (simp add: fl64_minus fl64_360)

lemma fl64_800: "fl64 800 = 800"
  by (rule fl64_exact [where e = 9 and n = "800 * 2 ^ 43"]) (simp_all add: powr_minus)

lemma fl64_440: "fl64 440 = 440"
  by (rule fl64_exact [where e = 8 and n = "440 * 2 ^ 44"]) (simp_all add: powr_minus)

lemma fl64_tiny: "fl64 (- (1 / 2 ^ 60)) = - (1 / 2 ^ 60)"
proof -
  have "fl64 (1 / 2 ^ 60) = 1 / 2 ^ 60"
    by (rule fl64_exact [where e = "- 60" and n = "2 ^ 52"]) (simp_all add: powr_minus)
  then show ?thesis by (simp only: fl64_minus)
qed

lemma fl64_below_360: "fl64 (- (1 / 2 ^ 60) + 360) = 360"
proof -
  have "fl64 (- (1 / 2 ^ 60) + 360) = of_int (360 * 2 ^ 44) * 2 powr of_int (8 - 52)"
    by (rule fl64_near) (simp_all add: powr_minus)
  also have "\<dots> = 360" by (simp add: powr_minus)
  finally show ?thesis .
qed


lemma np_iadd_fl_three:
  "np_iadd_fl fl [a1, a2, a3] [s1, s2, s3] = Inr [fl (a1 + s1), fl (a2 + s2), fl (a3 + s3)]"
  by (simp add: np_iadd_fl_def)

lemma wrap_loop_fl_three:
  "wrap_loop_fl fl [0, 1, 2] [x, y, z]
     = Inr [wrap360_fl fl x, wrap360_fl fl y, wrap360_fl fl z]"
  by simp

lemma increaseAngles_fl_three:
  assumes "angles obj = [a1, a2, a3]" and "rotateSpeed obj = [s1, s2, s3]"
  shows "increaseAngles_fl fl obj
     = Inr (obj\<lparr>angles := [wrap360_fl fl (fl (a1 + s1)), wrap360_fl fl (fl (a2 + s2)),
                           wrap360_fl fl (fl (a3 + s3))]\<rparr>)"
  using assms by (simp add: increaseAngles_fl_def np_iadd_fl_three)

lemma increaseAngles_fl_exact: "increaseAngles_fl (\<lambda>x. x) obj = increaseAngles obj"
proof -
  have w: "wrap360_fl (\<lambda>x. x) = wrap360"
    by (rule ext) (simp add: wrap360_fl_def wrap360_def)
  have l: "wrap_loop_fl (\<lambda>x. x) is a = wrap_loop is a" for "is" a
    by (induction "is" arbitrary: a) (simp_all add: w)
  have n: "np_iadd_fl (\<lambda>x. x) a b = np_iadd a b" for a b
    by (simp add: np_iadd_fl_def np_iadd_def)
  show ?thesis
    by (simp only: increaseAngles_fl_def increaseAngles_def l n)
qed

lemma rounded_between:
  assumes "mono fl" and "fl lo = lo" and "fl hi = hi" and "lo \<le> x" and "x \<le> hi"
  shows "lo \<le> fl x \<and> fl x \<le> hi"
  using monoD [OF assms(1) assms(4)] monoD [OF assms(1) assms(5)] assms(2,3) by simp

lemma wrap360_fl_range:
  assumes m: "mono fl" and z: "fl 0 = 0" and f: "fl 360 = 360"
    and s: "- 360 \<le> s" "s \<le> 720"
  shows "0 \<le> wrap360_fl fl s \<and> wrap360_fl fl s \<le> 360"
proof (cases "360 \<le> s")
  case True
  then have "0 \<le> fl (s - 360) \<and> fl (s - 360) \<le> 360"
    using s by (intro rounded_between [OF m z f]) simp_all
  then show ?thesis using True by (simp add: wrap360_fl_def Let_def)
next
  case False
  show ?thesis
  proof (cases "s < 0")
    case True
    then have "0 \<le> fl (s + 360) \<and> fl (s + 360) \<le> 360"
      using s by (intro rounded_between [OF m z f]) simp_all
    then show ?thesis using True False by (simp add: wrap360_fl_def Let_def)
  next
    case False
    then show ?thesis using \<open>\<not> 360 \<le> s\<close> by (simp add: wrap360_fl_def Let_def)
  qed
qed

lemma wrap360_fl_sum_range:
  assumes m: "mono fl" and z: "fl 0 = 0" and f: "fl 360 = 360" and g: "fl 720 = 720"
    and h: "fl (- 360) = - 360" and s: "- 360 \<le> a + v" "a + v \<le> 720"
  shows "0 \<le> wrap360_fl fl (fl (a + v)) \<and> wrap360_fl fl (fl (a + v)) \<le> 360"
proof -
  have "- 360 \<le> fl (a + v) \<and> fl (a + v) \<le> 720"
    using s by (intro rounded_between [OF m h g]) simp_all
  then show ?thesis by (intro wrap360_fl_range [OF m z f]) simp_all
qed

lemma wrap360_exact_below:
  assumes "- 360 \<le> s" and "s < 720"
  shows "wrap360_fl (\<lambda>x. x) s < 360"
  using assms by (simp add: wrap360_fl_def Let_def)

lemma increaseAngles_fl64_sample:
  "increaseAngles_fl fl64 (setRotateSpeed VectorObject_init [- (1 / 2 ^ 60), 0, 0])
     = Inr ((setRotateSpeed VectorObject_init [- (1 / 2 ^ 60), 0, 0])\<lparr>angles := [360, 0, 0]\<rparr>)"
proof -
  have t: "fl64 (0 + - (1 / 2 ^ 60)) = - (1 / 2 ^ 60)"
    using fl64_tiny by simp
  have z: "fl64 (0 + 0) = 0" by (simp add: fl64_zero)
  have w1: "wrap360_fl fl64 (- (1 / 2 ^ 60)) = 360"
    unfolding wrap360_fl_def Let_def using fl64_below_360 by simp
  have w0: "wrap360_fl fl64 0 = 0"
    by (simp add: wrap360_fl_def)
  have "increaseAngles_fl fl64 (setRotateSpeed VectorObject_init [- (1 / 2 ^ 60), 0, 0])
     = Inr ((setRotateSpeed VectorObject_init [- (1 / 2 ^ 60), 0, 0])
         \<lparr>angles := [wrap360_fl fl64 (fl64 (0 + - (1 / 2 ^ 60))),
                     wrap360_fl fl64 (fl64 (0 + 0)), wrap360_fl fl64 (fl64 (0 + 0))]\<rparr>)"
    by (rule increaseAngles_fl_three)
      (simp_all add: setRotateSpeed_def VectorObject_init_def)
  then show ?thesis by (simp only: t z w1 w0)
qed

text \<open>
  Claim C1, as stated, fails: \<open>increaseAngles\<close> subtracts or adds 360 at most once per
  angle, so a velocity of 800 takes the angle 0 to 440, outside [0,360), in exact
  arithmetic and in doubles alike.
\<close>

theorem increaseAngles_800_counterexample:
  "increaseAngles (setRotateSpeed VectorObject_init [800, 0, 0])
     = Inr ((setRotateSpeed VectorObject_init [800, 0, 0])\<lparr>angles := [440, 0, 0]\<rparr>)
   \<and> increaseAngles_fl fl64 (setRotateSpeed VectorObject_init [800, 0, 0])
     = Inr ((setRotateSpeed VectorObject_init [800, 0, 0])\<lparr>angles := [440, 0, 0]\<rparr>)
   \<and> \<not> list_all (\<lambda>a. 0 \<le> a \<and> a < 360) [440, 0, 0 :: real]"
proof -
  have "increaseAngles_fl fl64 (setRotateSpeed VectorObject_init [800, 0, 0])
     = Inr ((setRotateSpeed VectorObject_init [800, 0, 0])
         \<lparr>angles := [wrap360_fl fl64 (fl64 (0 + 800)),
                     wrap360_fl fl64 (fl64 (0 + 0)), wrap360_fl fl64 (fl64 (0 + 0))]\<rparr>)"
    by (rule increaseAngles_fl_three)
      (simp_all add: setRotateSpeed_def VectorObject_init_def)
  moreover have "wrap360_fl fl64 (fl64 (0 + 800)) = 440"
    by (simp add: wrap360_fl_def fl64_800 fl64_440)
  moreover have "wrap360_fl fl64 (fl64 (0 + 0)) = 0"
    by (simp add: wrap360_fl_def fl64_zero)
  ultimately show ?thesis
    by (simp add: increaseAngles_def np_iadd_def wrap360_def VectorObject_init_def
        setRotateSpeed_def)
qed

text \<open>
  Claim C1, amended. Let \<open>fl\<close> be the rounding of the arithmetic: monotone, and leaving
  -360, 0, 360 and 720 unchanged, as the rounding of doubles is. For an orientation of
  three angles and a velocity of three components such that every sum of an angle and
  its velocity component lies in [-360,720], one call of \<open>increaseAngles\<close> succeeds and
  leaves each of the three angles in [0,360]. The bound 360 itself is reached through
  rounding only (in doubles at angle 0 and velocity \<open>-2^-60\<close>): in exact arithmetic,
  with every sum below 720, each angle is below 360.
\<close>

theorem increaseAngles_in_range:
  assumes "mono fl" and "fl 0 = 0" and "fl 360 = 360" and "fl 720 = 720"
    and "fl (- 360) = - 360"
    and "length (angles obj) = 3" and "length (rotateSpeed obj) = 3"
    and "list_all (\<lambda>(a, s). - 360 \<le> a + s \<and> a + s \<le> 720)
           (zip (angles obj) (rotateSpeed obj))"
  shows "\<exists>obj'. increaseAngles_fl fl obj = Inr obj' \<and> length (angles obj') = 3
           \<and> list_all (\<lambda>a. 0 \<le> a \<and> a \<le> 360) (angles obj')
           \<and> ((\<forall>x. fl x = x)
                 \<and> list_all (\<lambda>(a, s). a + s < 720) (zip (angles obj) (rotateSpeed obj))
               \<longrightarrow> list_all (\<lambda>a. a < 360) (angles obj'))"
proof -
  obtain a1 a2 a3 where a: "angles obj = [a1, a2, a3]"
    using assms(6) by (rule length_three)
  obtain s1 s2 s3 where s: "rotateSpeed obj = [s1, s2, s3]"
    using assms(7) by (rule length_three)
  from assms(8) a s have r:
    "- 360 \<le> a1 + s1" "a1 + s1 \<le> 720" "- 360 \<le> a2 + s2" "a2 + s2 \<le> 720"
    "- 360 \<le> a3 + s3" "a3 + s3 \<le> 720"
    by simp_all
  let ?w = "\<lambda>a v. wrap360_fl fl (fl (a + v))"
  have e: "increaseAngles_fl fl obj = Inr (obj\<lparr>angles := [?w a1 s1, ?w a2 s2, ?w a3 s3]\<rparr>)"
    using a s by (rule increaseAngles_fl_three)
  have b: "list_all (\<lambda>a. 0 \<le> a \<and> a \<le> 360) [?w a1 s1, ?w a2 s2, ?w a3 s3]"
    using wrap360_fl_sum_range [OF assms(1-5) r(1,2)]
      wrap360_fl_sum_range [OF assms(1-5) r(3,4)]
      wrap360_fl_sum_range [OF assms(1-5) r(5,6)]
    by simp
  have c: "list_all (\<lambda>a. a < 360) [?w a1 s1, ?w a2 s2, ?w a3 s3]"
    if x: "\<forall>x. fl x = x"
      and l: "list_all (\<lambda>(a, s). a + s < 720) (zip (angles obj) (rotateSpeed obj))"
  proof -
    have fl: "fl = (\<lambda>x. x)" using x by (intro ext) simp
    from l a s have "a1 + s1 < 720" "a2 + s2 < 720" "a3 + s3 < 720" by simp_all
    then show ?thesis
      using r(1,3,5) unfolding fl by (simp add: wrap360_exact_below)
  qed
  show ?thesis
    using e b c by simp
qed

theorem increaseAngles_in_range_witness:
  "mono fl64 \<and> fl64 0 = 0 \<and> fl64 360 = 360 \<and> fl64 720 = 720 \<and> fl64 (- 360) = - 360
   \<and> length (angles (setRotateSpeed VectorObject_init [- (1 / 2 ^ 60), 0, 0])) = 3
   \<and> length (rotateSpeed (setRotateSpeed VectorObject_init [- (1 / 2 ^ 60), 0, 0])) = 3
   \<and> list_all (\<lambda>(a, s). - 360 \<le> a + s \<and> a + s \<le> 720)
        (zip (angles (setRotateSpeed VectorObject_init [- (1 / 2 ^ 60), 0, 0]))
             (rotateSpeed (setRotateSpeed VectorObject_init [- (1 / 2 ^ 60), 0, 0])))
   \<and> (\<exists>obj'. increaseAngles_fl fl64 (setRotateSpeed VectorObject_init [- (1 / 2 ^ 60), 0, 0])
                = Inr obj'
         \<and> length (angles obj') = 3 \<and> list_all (\<lambda>a. 0 \<le> a \<and> a \<le> 360) (angles obj'))
   \<and> increaseAngles_fl fl64 (setRotateSpeed VectorObject_init [- (1 / 2 ^ 60), 0, 0])
       = Inr ((setRotateSpeed VectorObject_init [- (1 / 2 ^ 60), 0, 0])\<lparr>angles := [360, 0, 0]\<rparr>)"
proof -
  let ?W = "setRotateSpeed VectorObject_init [- (1 / 2 ^ 60), 0, 0]"
  have h6: "length (angles ?W) = 3" and h7: "length (rotateSpeed ?W) = 3"
    by (simp_all add: setRotateSpeed_def VectorObject_init_def)
  have h8: "list_all (\<lambda>(a, s). - 360 \<le> a + s \<and> a + s \<le> 720)
              (zip (angles ?W) (rotateSpeed ?W))"
    by (simp add: setRotateSpeed_def VectorObject_init_def)
  from increaseAngles_in_range
    [OF fl64_mono fl64_zero fl64_360 fl64_720 fl64_minus_360 h6 h7 h8]
  have "\<exists>obj'. increaseAngles_fl fl64 ?W = Inr obj'
         \<and> length (angles obj') = 3 \<and> list_all (\<lambda>a. 0 \<le> a \<and> a \<le> 360) (angles obj')"
    by blast
  then show ?thesis
    using fl64_mono fl64_zero fl64_360 fl64_720 fl64_minus_360 h6 h7 h8
      increaseAngles_fl64_sample
    by blast
qed

section \<open>Rotation matrix\<close>

lemma upt_3: "[0..<3] = [0, 1, 2]"
  by code_simp

lemmas mat_eval = vec_mat_def column_def dot_vec_def ncols_def mat_mul_def upt_3

lemma angleScale_radians: "d * angleScale = radians d"
  by (simp add: angleScale_def radians_def)

lemma product_entries:
  "mat_mul (mat_mul (Rx a) (Ry b)) (Rz c) =
     [[cos b * cos c, - cos b * sin c, sin b],
      [cos a * sin c + cos c * sin a * sin b, cos a * cos c - sin a * sin b * sin c, - cos b * sin a],
      [sin a * sin c - cos a * cos c * sin b, cos c * sin a + cos a * sin b * sin c, cos a * cos b]]"
  by (simp add: Rx_def Ry_def Rz_def mat_eval algebra_simps)

lemma setRotationMatrix_product:
  assumes "angles obj = [a, b, c]"
  shows "setRotationMatrix obj
           = Inr (obj\<lparr>rotationMatrix :=
                mat_mul (mat_mul (Rx (radians a)) (Ry (radians b))) (Rz (radians c))\<rparr>)"
  using assms
  by (simp add: setRotationMatrix_def angleScale_radians product_entries Let_def)

lemma vec_mat_assoc3:
  assumes "length v = 3"
  shows "vec_mat v (mat_mul (mat_mul (Rx a) (Ry b)) (Rz c))
           = vec_mat (vec_mat (vec_mat v (Rx a)) (Ry b)) (Rz c)"
proof -
  obtain x y z where v: "v = [x, y, z]"
    using assms by (auto simp: numeral_3_eq_3 length_Suc_conv)
  show ?thesis
    unfolding product_entries
    by (simp add: v Rx_def Ry_def Rz_def mat_eval algebra_simps)
qed

lemma setRotationMatrix_not3:
  assumes "length (angles obj) \<noteq> 3"
  shows "setRotationMatrix obj = Inl ValueError"
  using assms by (auto simp: setRotationMatrix_def split: list.splits)

lemma setRotationMatrix_zero:
  assumes "angles obj = [0, 0, 0]"
  shows "setRotationMatrix obj
           = Inr (obj\<lparr>rotationMatrix := [[1, 0, 0], [0, 1, 0], [0, 0, 1]]\<rparr>)"
  using assms by (simp add: setRotationMatrix_def)

lemma extrinsic_three: "extrinsic [A, B, C] = mat_mul (mat_mul (mat_mul identity3 A) B) C"
  by (simp add: extrinsic_def turn_fixed_def)

lemma intrinsic_three: "intrinsic [A, B, C] = mat_mul C (mat_mul B (mat_mul A identity3))"
  by (simp add: intrinsic_def turn_local_def)

lemma extrinsic_xyz_entries:
  "extrinsic [Rx a, Ry b, Rz c] =
     [[cos b * cos c, - cos b * sin c, sin b],
      [cos a * sin c + cos c * sin a * sin b, cos a * cos c - sin a * sin b * sin c, - cos b * sin a],
      [sin a * sin c - cos a * cos c * sin b, cos c * sin a + cos a * sin b * sin c, cos a * cos b]]"
  by (simp add: extrinsic_three identity3_def Rx_def Ry_def Rz_def mat_eval algebra_simps)

lemma intrinsic_zyx_entries:
  "intrinsic [Rz c, Ry b, Rx a] =
     [[cos b * cos c, - cos b * sin c, sin b],
      [cos a * sin c + cos c * sin a * sin b, cos a * cos c - sin a * sin b * sin c, - cos b * sin a],
      [sin a * sin c - cos a * cos c * sin b, cos c * sin a + cos a * sin b * sin c, cos a * cos b]]"
  by (simp add: intrinsic_three identity3_def Rx_def Ry_def Rz_def mat_eval algebra_simps)


lemma extrinsic_xyz_product:
  "extrinsic [Rx a, Ry b, Rz c] = mat_mul (mat_mul (Rx a) (Ry b)) (Rz c)"
  by (simp only: extrinsic_xyz_entries product_entries)

lemma setRotationMatrix_extrinsic:
  assumes "angles obj = [a, b, c]"
  shows "setRotationMatrix obj
           = Inr (obj\<lparr>rotationMatrix :=
                extrinsic [Rx (radians a), Ry (radians b), Rz (radians c)]\<rparr>)"
  using assms by (simp add: setRotationMatrix_product extrinsic_xyz_product)

text \<open>
  Claim C2, as stated, fails. Under the row-vector convention the intrinsic
  X-then-Y-then-Z composition is \<open>Rz * Ry * Rx\<close>, and the matrix of \<open>setRotationMatrix\<close> is
  another one: at the angles (90,0,90) it sends the row (0,1,0) to (0,0,-1), and the
  intrinsic composition sends it to (1,0,0).
\<close>

theorem setRotationMatrix_intrinsic_counterexample:
  "map_sum id rotationMatrix (setRotationMatrix (VectorObject_init\<lparr>angles := [90, 0, 90]\<rparr>))
     = Inr [[0, - 1, 0], [0, 0, - 1], [1, 0, 0]]
   \<and> intrinsic [Rx (radians 90), Ry (radians 0), Rz (radians 90)]
     = [[0, 0, 1], [1, 0, 0], [0, 1, 0]]
   \<and> vec_mat [0, 1, 0] [[0, - 1, 0], [0, 0, - 1], [1, 0, 0]] = [0, 0, - 1]
   \<and> vec_mat [0, 1, 0] [[0, 0, 1], [1, 0, 0], [0, 1, 0]] = [1, 0, 0]
   \<and> [[0, - 1, 0], [0, 0, - 1], [1, 0, 0]] \<noteq> [[0, 0, 1], [1, 0, 0], [0, 1, 0 :: real]]"
  by (simp add: setRotationMatrix_def angleScale_def VectorObject_init_def radians_def
      intrinsic_three identity3_def Rx_def Ry_def Rz_def mat_eval)

text \<open>
  Claim C2, amended. For three orientation angles in degrees, the matrix that
  \<open>setRotationMatrix\<close> stores is the extrinsic X-then-Y-then-Z composition, under the
  row-vector convention, of the three standard per-axis rotation matrices by the
  angles converted to radians: the product \<open>Rx * Ry * Rz\<close>. Right-multiplying a node row
  by it applies the X rotation first, then Y, then Z, each about the fixed coordinate
  axis. As an intrinsic composition it is the one in the order Z, Y, X.
\<close>

theorem setRotationMatrix_extrinsic_xyz:
  assumes "angles obj = [a, b, c]"
  shows "setRotationMatrix obj
           = Inr (obj\<lparr>rotationMatrix :=
                extrinsic [Rx (radians a), Ry (radians b), Rz (radians c)]\<rparr>)
         \<and> extrinsic [Rx (radians a), Ry (radians b), Rz (radians c)]
             = mat_mul (mat_mul (Rx (radians a)) (Ry (radians b))) (Rz (radians c))
         \<and> extrinsic [Rx (radians a), Ry (radians b), Rz (radians c)]
             = intrinsic [Rz (radians c), Ry (radians b), Rx (radians a)]
         \<and> (\<forall>v. length v = 3 \<longrightarrow>
               vec_mat v (extrinsic [Rx (radians a), Ry (radians b), Rz (radians c)])
                 = vec_mat (vec_mat (vec_mat v (Rx (radians a))) (Ry (radians b)))
                     (Rz (radians c)))"
proof (intro conjI allI impI)
  show "setRotationMatrix obj
           = Inr (obj\<lparr>rotationMatrix :=
                extrinsic [Rx (radians a), Ry (radians b), Rz (radians c)]\<rparr>)"
    using assms by (rule setRotationMatrix_extrinsic)
  show "extrinsic [Rx (radians a), Ry (radians b), Rz (radians c)]
             = mat_mul (mat_mul (Rx (radians a)) (Ry (radians b))) (Rz (radians c))"
    by (rule extrinsic_xyz_product)
  show "extrinsic [Rx (radians a), Ry (radians b), Rz (radians c)]
             = intrinsic [Rz (radians c), Ry (radians b), Rx (radians a)]"
    by (simp only: extrinsic_xyz_entries intrinsic_zyx_entries)
  fix v :: vec
  assume "length v = 3"
  then show "vec_mat v (extrinsic [Rx (radians a), Ry (radians b), Rz (radians c)])
                 = vec_mat (vec_mat (vec_mat v (Rx (radians a))) (Ry (radians b)))
                     (Rz (radians c))"
    by (simp only: extrinsic_xyz_product vec_mat_assoc3)
qed

theorem setRotationMatrix_extrinsic_xyz_witness:
  "angles (VectorObject_init\<lparr>angles := [90, 0, 180]\<rparr>) = [90, 0, 180]
   \<and> setRotationMatrix (VectorObject_init\<lparr>angles := [90, 0, 180]\<rparr>)
       = Inr (VectorObject_init\<lparr>angles := [90, 0, 180],
                rotationMatrix := [[- 1, 0, 0], [0, 0, - 1], [0, - 1, 0]]\<rparr>)
   \<and> extrinsic [Rx (radians 90), Ry (radians 0), Rz (radians 180)]
       = [[- 1, 0, 0], [0, 0, - 1], [0, - 1, 0]]
   \<and> intrinsic [Rz (radians 180), Ry (radians 0), Rx (radians 90)]
       = [[- 1, 0, 0], [0, 0, - 1], [0, - 1, 0]]
   \<and> vec_mat [1, 2, 3] [[- 1, 0, 0], [0, 0, - 1], [0, - 1, 0]] = [- 1, - 3, - 2]
   \<and> vec_mat (vec_mat (vec_mat [1, 2, 3] (Rx (radians 90))) (Ry (radians 0))) (Rz (radians 180))
       = [- 1, - 3, - 2]"
proof -
  let ?W = "VectorObject_init\<lparr>angles := [90, 0, 180]\<rparr>"
  let ?M = "[[- 1, 0, 0], [0, 0, - 1], [0, - 1, 0 :: real]]"
  have h: "angles ?W = [90, 0, 180]"
    by (simp add: VectorObject_init_def)
  note t = setRotationMatrix_extrinsic_xyz [OF h]
  have m: "extrinsic [Rx (radians 90), Ry (radians 0), Rz (radians 180)] = ?M"
    by (simp add: extrinsic_xyz_entries radians_def)
  have i: "intrinsic [Rz (radians 180), Ry (radians 0), Rx (radians 90)] = ?M"
    by (simp add: intrinsic_zyx_entries radians_def)
  have v: "vec_mat [1, 2, 3] ?M = [- 1, - 3, - 2]"
    by (simp add: vec_mat_def column_def dot_vec_def ncols_def upt_3)
  from t have "setRotationMatrix ?W
      = Inr (?W\<lparr>rotationMatrix :=
               extrinsic [Rx (radians 90), Ry (radians 0), Rz (radians 180)]\<rparr>)"
    by blast
  then have s: "setRotationMatrix ?W = Inr (?W\<lparr>rotationMatrix := ?M\<rparr>)"
    by (simp only: m)
  have l: "length [1, 2, 3 :: real] = 3" by simp
  from t l have "vec_mat [1, 2, 3] (extrinsic [Rx (radians 90), Ry (radians 0), Rz (radians 180)])
      = vec_mat (vec_mat (vec_mat [1, 2, 3] (Rx (radians 90))) (Ry (radians 0)))
          (Rz (radians 180))"
    by blast
  then have a: "vec_mat (vec_mat (vec_mat [1, 2, 3] (Rx (radians 90))) (Ry (radians 0)))
          (Rz (radians 180)) = [- 1, - 3, - 2]"
    by (simp only: m v)
  from h s m i v a show ?thesis by blast
qed

section \<open>Rotation and translation in one product\<close>

lemma map_err_Inr:
  assumes "\<And>x. x \<in> set xs \<Longrightarrow> f x = Inr (g x)"
  shows "map_err f xs = Inr (map g xs)"
  using assms by (induction xs) simp_all

lemma column_snoc: "column (R @ [p]) j = column R j @ [p ! j]"
  by (simp add: column_def)

lemma dot_vec_snoc:
  "length u = length w \<Longrightarrow> dot_vec (u @ [a]) (w @ [b]) = dot_vec u w + a * b"
  by (simp add: dot_vec_def)

lemma length_column: "length (column R j) = length R"
  by (simp add: column_def)

lemma ncols_snoc: "R \<noteq> [] \<Longrightarrow> ncols (R @ [p]) = ncols R"
  by (cases R) (simp_all add: ncols_def)

lemma map2_add_upt:
  "length p = n \<Longrightarrow> map2 (+) (map f [0..<n]) p = map (\<lambda>j. f j + p ! j) [0..<n]"
  by (rule nth_equalityI) simp_all

lemma vec_mat_homogeneous:
  assumes "length v = length R" and "R \<noteq> []" and "length p = ncols R"
  shows "vec_mat (v @ [1]) (R @ [p]) = rotate_then_add R p v"
  using assms
  by (simp add: vec_mat_def rotate_then_add_def ncols_snoc column_snoc dot_vec_snoc
      length_column map2_add_upt)

lemma rotate_obj_homogeneous:
  assumes R: "length (rotationMatrix obj) = 3"
      "list_all (\<lambda>r. length r = 3) (rotationMatrix obj)"
    and p: "3 \<le> length (position obj)"
    and n: "nodes obj = hstack_ones node_array" "list_all (\<lambda>v. length v = 3) node_array"
  shows "rotate_obj obj
           = Inr (obj\<lparr>rotatedNodes :=
                  map (rotate_then_add (rotationMatrix obj) (take 3 (position obj))) node_array\<rparr>)"
proof -
  let ?R = "rotationMatrix obj" and ?p = "take 3 (position obj)"
  have lp: "length ?p = 3" using p by simp
  have ne: "?R \<noteq> []" using R(1) by auto
  have nc: "ncols ?R = 3" using R by (cases ?R) (simp_all add: ncols_def)
  have st: "np_vstack ?R ?p = Inr (?R @ [?p])"
    using R(2) lp by (simp add: np_vstack_def)
  have rows: "list_all (\<lambda>r. length r = length (?R @ [?p])) (hstack_ones node_array)"
    using n(2) R(1) by (simp add: hstack_ones_def list_all_iff)
  have rect: "list_all (\<lambda>r. length r = ncols (?R @ [?p])) (?R @ [?p])"
    using R(2) lp ne nc by (simp add: ncols_snoc)
  have each: "map (\<lambda>r. vec_mat r (?R @ [?p])) (hstack_ones node_array)
                = map (rotate_then_add ?R ?p) node_array"
    using n(2) R(1) ne nc lp
    by (simp add: hstack_ones_def list_all_iff vec_mat_homogeneous)
  have "np_dot 4 (hstack_ones node_array) (?R @ [?p])
          = Inr (map (rotate_then_add ?R ?p) node_array)"
    using rows rect each R(1) by (simp add: np_dot_def)
  then show ?thesis
    using st n(1) by (simp add: rotate_obj_def)
qed

text \<open>
  Claim C3. For a vertex set of three-component points stored by \<open>addNodes\<close> (each
  with an appended 1), every 3 x 3 matrix \<open>R\<close> and every position \<open>p\<close> of at least three
  components, the single product computed by \<open>rotate\<close> succeeds and its rows are, vertex
  by vertex, the naive result: the vertex times \<open>R\<close>, plus the first three components
  of \<open>p\<close>.
\<close>

theorem rotate_fused:
  assumes "length (rotationMatrix obj) = 3"
    and "list_all (\<lambda>r. length r = 3) (rotationMatrix obj)"
    and "3 \<le> length (position obj)"
    and "list_all (\<lambda>v. length v = 3) node_array"
  shows "rotate_obj (addNodes obj node_array)
           = Inr ((addNodes obj node_array)
               \<lparr>rotatedNodes :=
                  map (rotate_then_add (rotationMatrix obj) (take 3 (position obj))) node_array\<rparr>)"
  using rotate_obj_homogeneous [of "addNodes obj node_array" node_array] assms
  by (simp add: addNodes_def)

theorem rotate_fused_witness:
  "length (rotationMatrix (VectorObject_init
       \<lparr>position := [0, 0, 1500, 1], rotationMatrix := [[0, - 1, 0], [1, 0, 0], [0, 0, 1]]\<rparr>)) = 3
   \<and> list_all (\<lambda>r. length r = 3) (rotationMatrix (VectorObject_init
       \<lparr>position := [0, 0, 1500, 1], rotationMatrix := [[0, - 1, 0], [1, 0, 0], [0, 0, 1]]\<rparr>))
   \<and> 3 \<le> length (position (VectorObject_init
       \<lparr>position := [0, 0, 1500, 1], rotationMatrix := [[0, - 1, 0], [1, 0, 0], [0, 0, 1]]\<rparr>))
   \<and> list_all (\<lambda>v. length v = 3) [[100, 50, 20], [0, 0, 0]]
   \<and> map_sum id rotatedNodes (rotate_obj (addNodes (VectorObject_init
       \<lparr>position := [0, 0, 1500, 1], rotationMatrix := [[0, - 1, 0], [1, 0, 0], [0, 0, 1]]\<rparr>)
         [[100, 50, 20], [0, 0, 0]]))
       = Inr [[50, - 100, 1520], [0, 0, 1500]]"
  using rotate_fused [of "VectorObject_init
       \<lparr>position := [0, 0, 1500, 1], rotationMatrix := [[0, - 1, 0], [1, 0, 0], [0, 0, 1]]\<rparr>"
       "[[100, 50, 20], [0, 0, 0]]"]
  by (simp add: VectorObject_init_def addNodes_def rotate_then_add_def mat_eval)

section \<open>Perspective projection\<close>

lemma transform_rows:
  assumes "list_all (\<lambda>r. 3 \<le> length r) rn"
  shows "map_err (transform_row zs [mx, my]) rn
     = Inr (map (\<lambda>r. if r ! 2 = 0 then None
                 else Some [(r ! 0 * zs) / (r ! 2) + mx, (r ! 1 * zs) / (r ! 2) + my]) rn)"
  using assms by (intro map_err_Inr) (auto simp: transform_row_def list_all_iff)

lemma transform_two:
  assumes "list_all (\<lambda>r. 3 \<le> length r) (rotatedNodes obj)"
  shows "transform obj zs [mx, my]
     = Inr (obj\<lparr>transNodes := map (\<lambda>r. if r ! 2 = 0 then None
                 else Some [(r ! 0 * zs) / (r ! 2) + mx, (r ! 1 * zs) / (r ! 2) + my])
                 (rotatedNodes obj)\<rparr>)"
  using assms by (simp add: transform_def transform_rows)

lemma origin_to_position:
  "rotate_then_add [[1, 0, 0], [0, 1, 0], [0, 0, 1]] [0, 0, Z] [0, 0, 0] = [0, 0, Z]"
  by (simp add: rotate_then_add_def mat_eval)

lemma origin_projects_to_centre:
  assumes a: "angles obj = [0, 0, 0]" and p: "position obj = [0, 0, Z, 1]" and Z: "0 < Z"
    and n: "list_all (\<lambda>v. length v = 3) node_array"
    and k: "k < length node_array" "node_array ! k = [0, 0, 0]"
  shows "\<exists>o1 o2 o3. setRotationMatrix (addNodes obj node_array) = Inr o1
           \<and> rotate_obj o1 = Inr o2 \<and> transform o2 zs [mx, my] = Inr o3
           \<and> transNodes o3 ! k = Some [mx, my]"
proof -
  let ?I = "[[1, 0, 0], [0, 1, 0], [0, 0, 1 :: real]]"
  let ?o1 = "(addNodes obj node_array)\<lparr>rotationMatrix := ?I\<rparr>"
  let ?rn = "map (rotate_then_add ?I [0, 0, Z]) node_array"
  let ?o2 = "?o1\<lparr>rotatedNodes := ?rn\<rparr>"
  have s1: "setRotationMatrix (addNodes obj node_array) = Inr ?o1"
    using a by (simp add: setRotationMatrix_zero addNodes_def)
  have s2: "rotate_obj ?o1 = Inr ?o2"
    using rotate_obj_homogeneous [of ?o1 node_array] p n by (simp add: addNodes_def)
  have len: "list_all (\<lambda>r. 3 \<le> length r) ?rn"
    by (simp add: list_all_iff rotate_then_add_def vec_mat_def ncols_def)
  have s3: "transform ?o2 zs [mx, my]
     = Inr (?o2\<lparr>transNodes := map (\<lambda>r. if r ! 2 = 0 then None
                 else Some [(r ! 0 * zs) / (r ! 2) + mx, (r ! 1 * zs) / (r ! 2) + my]) ?rn\<rparr>)"
    using transform_two [of ?o2 zs mx my] len by simp
  have row: "?rn ! k = [0, 0, Z]"
    using k by (simp add: origin_to_position)
  have "map (\<lambda>r. if r ! 2 = 0 then None
                 else Some [(r ! 0 * zs) / (r ! 2) + mx, (r ! 1 * zs) / (r ! 2) + my]) ?rn ! k
          = Some [mx, my]"
    using k(1) Z row by simp
  with s1 s2 s3 show ?thesis by simp
qed

text \<open>
  Claim C4. \<open>transform\<close> maps each world-space vertex (x,y,z) with a nonzero z to
  (x*zScale/z + midScreenX, y*zScale/z + midScreenY) (a zero z gives no real number:
  numpy yields an infinity or a NaN there). And for an object with zero rotation at
  position (0,0,Z,1) with Z > 0, a vertex at object-local (0,0,0) is projected by
  \<open>setRotationMatrix\<close>, \<open>rotate\<close> and \<open>transform\<close> to exactly the screen-center offset.
\<close>

theorem transform_projection:
  "(list_all (\<lambda>r. 3 \<le> length r) (rotatedNodes obj) \<longrightarrow>
      (\<exists>obj'. transform obj zs [mx, my] = Inr obj'
         \<and> length (transNodes obj') = length (rotatedNodes obj)
         \<and> (\<forall>i < length (rotatedNodes obj). rotatedNodes obj ! i ! 2 \<noteq> 0 \<longrightarrow>
               transNodes obj' ! i
                 = Some [rotatedNodes obj ! i ! 0 * zs / (rotatedNodes obj ! i ! 2) + mx,
                         rotatedNodes obj ! i ! 1 * zs / (rotatedNodes obj ! i ! 2) + my])))
   \<and> (angles obj = [0, 0, 0] \<and> position obj = [0, 0, Z, 1] \<and> 0 < Z
        \<and> list_all (\<lambda>v. length v = 3) node_array
        \<and> k < length node_array \<and> node_array ! k = [0, 0, 0] \<longrightarrow>
      (\<exists>o1 o2 o3. setRotationMatrix (addNodes obj node_array) = Inr o1
           \<and> rotate_obj o1 = Inr o2 \<and> transform o2 zs [mx, my] = Inr o3
           \<and> transNodes o3 ! k = Some [mx, my]))"
proof (intro conjI impI)
  assume "list_all (\<lambda>r. 3 \<le> length r) (rotatedNodes obj)"
  then show "\<exists>obj'. transform obj zs [mx, my] = Inr obj'
         \<and> length (transNodes obj') = length (rotatedNodes obj)
         \<and> (\<forall>i < length (rotatedNodes obj). rotatedNodes obj ! i ! 2 \<noteq> 0 \<longrightarrow>
               transNodes obj' ! i
                 = Some [rotatedNodes obj ! i ! 0 * zs / (rotatedNodes obj ! i ! 2) + mx,
                         rotatedNodes obj ! i ! 1 * zs / (rotatedNodes obj ! i ! 2) + my])"
    by (simp add: transform_two)
next
  assume "angles obj = [0, 0, 0] \<and> position obj = [0, 0, Z, 1] \<and> 0 < Z
        \<and> list_all (\<lambda>v. length v = 3) node_array
        \<and> k < length node_array \<and> node_array ! k = [0, 0, 0]"
  then show "\<exists>o1 o2 o3. setRotationMatrix (addNodes obj node_array) = Inr o1
           \<and> rotate_obj o1 = Inr o2 \<and> transform o2 zs [mx, my] = Inr o3
           \<and> transNodes o3 ! k = Some [mx, my]"
    using origin_projects_to_centre [of obj Z node_array k zs mx my] by blast
qed

theorem transform_projection_witness:
  "list_all (\<lambda>r. 3 \<le> length r)
     (rotatedNodes (VectorObject_init\<lparr>position := [0, 0, 1500, 1], rotatedNodes := [[100, 200, 50], [1, 1, 0]]\<rparr>))
   \<and> angles (VectorObject_init\<lparr>position := [0, 0, 1500, 1], rotatedNodes := [[100, 200, 50], [1, 1, 0]]\<rparr>) = [0, 0, 0]
   \<and> position (VectorObject_init\<lparr>position := [0, 0, 1500, 1], rotatedNodes := [[100, 200, 50], [1, 1, 0]]\<rparr>) = [0, 0, 1500, 1]
   \<and> (0 :: real) < 1500
   \<and> list_all (\<lambda>v. length v = 3) [[100, 100, 100], [0, 0, 0 :: real]]
   \<and> (1 :: nat) < length [[100, 100, 100], [0, 0, 0 :: real]]
   \<and> [[100, 100, 100], [0, 0, 0 :: real]] ! 1 = [0, 0, 0]
   \<and> map_sum id transNodes (transform (VectorObject_init\<lparr>position := [0, 0, 1500, 1], rotatedNodes := [[100, 200, 50], [1, 1, 0]]\<rparr>) 896 [640, 400])
        = Inr [Some [2432, 3984], None]
   \<and> (\<exists>o1 o2 o3. setRotationMatrix (addNodes (VectorObject_init\<lparr>position := [0, 0, 1500, 1], rotatedNodes := [[100, 200, 50], [1, 1, 0]]\<rparr>) [[100, 100, 100], [0, 0, 0]]) = Inr o1
           \<and> rotate_obj o1 = Inr o2 \<and> transform o2 896 [640, 400] = Inr o3
           \<and> transNodes o3 ! 1 = Some [640, 400])"
  using transform_projection [where obj = "VectorObject_init\<lparr>position := [0, 0, 1500, 1], rotatedNodes := [[100, 200, 50], [1, 1, 0]]\<rparr>"
      and zs = 896 and mx = 640 and my = 400 and Z = 1500
      and node_array = "[[100, 100, 100], [0, 0, 0]]" and k = 1]
  by (simp add: VectorObject_init_def transform_def transform_row_def)

section \<open>Determinism of the transform\<close>

lemma rotate_obj_world:
  "map_sum id rotatedNodes (rotate_obj obj)
     = (case np_vstack (rotationMatrix obj) (take 3 (position obj)) of
          Inl e \<Rightarrow> Inl e | Inr m \<Rightarrow> np_dot 4 (nodes obj) m)"
  by (simp add: rotate_obj_def split: sum.splits)

lemma world_vertices_three:
  assumes "angles obj = [a, b, c]"
  shows "world_vertices obj
     = (case np_vstack (mat_mul (mat_mul (Rx (radians a)) (Ry (radians b))) (Rz (radians c)))
               (take 3 (position obj)) of
          Inl e \<Rightarrow> Inl e | Inr m \<Rightarrow> np_dot 4 (nodes obj) m)"
  using assms
  by (simp add: world_vertices_def build_and_rotate_def setRotationMatrix_product
      rotate_obj_world split: sum.splits)

lemma world_vertices_not3:
  assumes "length (angles obj) \<noteq> 3"
  shows "world_vertices obj = Inl ValueError"
  using assms by (simp add: world_vertices_def build_and_rotate_def setRotationMatrix_not3)

lemma world_vertices_cong:
  assumes "nodes o1 = nodes o2" and "angles o1 = angles o2" and "position o1 = position o2"
  shows "world_vertices o1 = world_vertices o2"
proof (cases "length (angles o1) = 3")
  case True
  then obtain a b c where "angles o1 = [a, b, c]" by (rule length_three)
  then show ?thesis using assms by (simp add: world_vertices_three split: sum.splits)
next
  case False
  then show ?thesis using assms(2) by (simp add: world_vertices_not3)
qed

lemma rotate_obj_keeps:
  assumes "rotate_obj obj = Inr obj'"
  shows "nodes obj' = nodes obj \<and> angles obj' = angles obj \<and> position obj' = position obj"
  using assms by (auto simp: rotate_obj_def split: sum.splits)

lemma build_and_rotate_keeps:
  assumes "build_and_rotate obj = Inr obj'"
  shows "nodes obj' = nodes obj \<and> angles obj' = angles obj \<and> position obj' = position obj"
proof (cases "length (angles obj) = 3")
  case True
  then obtain a b c where "angles obj = [a, b, c]" by (rule length_three)
  then show ?thesis
    using assms rotate_obj_keeps [of _ obj']
    by (auto simp: build_and_rotate_def setRotationMatrix_product)
next
  case False
  then show ?thesis
    using assms by (simp add: build_and_rotate_def setRotationMatrix_not3)
qed

lemma build_and_rotate_sample:
  "build_and_rotate (addNodes (setPosition VectorObject_init [0, 0, 1500, 1]) [[100, 50, 20]])
     = Inr ((addNodes (setPosition VectorObject_init [0, 0, 1500, 1]) [[100, 50, 20]])
         \<lparr>rotationMatrix := [[1, 0, 0], [0, 1, 0], [0, 0, 1]],
          rotatedNodes := [[100, 50, 1520]]\<rparr>)"
  by (simp add: build_and_rotate_def setRotationMatrix_def rotate_obj_def np_vstack_def
      np_dot_def addNodes_def setPosition_def VectorObject_init_def hstack_ones_def
      vec_mat_def column_def dot_vec_def ncols_def upt_3)

text \<open>
  Claim C9. The world-space vertices that \<open>setRotationMatrix\<close> followed by \<open>rotate\<close>
  produce (or the exception they raise) depend on the vertex set, the orientation
  angles and the position only: two objects that agree on these three get identical
  results, whatever their other fields hold, and a second invocation on the object left
  by the first gives the same result again.
\<close>

theorem world_vertices_deterministic:
  assumes "nodes o1 = nodes o2" and "angles o1 = angles o2" and "position o1 = position o2"
  shows "world_vertices o1 = world_vertices o2
         \<and> (\<forall>o1'. build_and_rotate o1 = Inr o1' \<longrightarrow> world_vertices o1' = world_vertices o2)"
proof (intro conjI allI impI)
  show "world_vertices o1 = world_vertices o2"
    using assms by (rule world_vertices_cong)
next
  fix o1' assume "build_and_rotate o1 = Inr o1'"
  then have "nodes o1' = nodes o1 \<and> angles o1' = angles o1 \<and> position o1' = position o1"
    by (rule build_and_rotate_keeps)
  then show "world_vertices o1' = world_vertices o2"
    using assms by (intro world_vertices_cong) simp_all
qed

theorem world_vertices_deterministic_witness:
  "nodes (addNodes (setPosition VectorObject_init [0, 0, 1500, 1]) [[100, 50, 20]])
     = nodes ((addNodes (setPosition VectorObject_init [0, 0, 1500, 1]) [[100, 50, 20]])
         \<lparr>rotationMatrix := [], rotateSpeed := [5], surfaces := []\<rparr>)
   \<and> angles (addNodes (setPosition VectorObject_init [0, 0, 1500, 1]) [[100, 50, 20]])
     = angles ((addNodes (setPosition VectorObject_init [0, 0, 1500, 1]) [[100, 50, 20]])
         \<lparr>rotationMatrix := [], rotateSpeed := [5], surfaces := []\<rparr>)
   \<and> position (addNodes (setPosition VectorObject_init [0, 0, 1500, 1]) [[100, 50, 20]])
     = position ((addNodes (setPosition VectorObject_init [0, 0, 1500, 1]) [[100, 50, 20]])
         \<lparr>rotationMatrix := [], rotateSpeed := [5], surfaces := []\<rparr>)
   \<and> world_vertices (addNodes (setPosition VectorObject_init [0, 0, 1500, 1]) [[100, 50, 20]])
     = world_vertices ((addNodes (setPosition VectorObject_init [0, 0, 1500, 1]) [[100, 50, 20]])
         \<lparr>rotationMatrix := [], rotateSpeed := [5], surfaces := []\<rparr>)
   \<and> build_and_rotate (addNodes (setPosition VectorObject_init [0, 0, 1500, 1]) [[100, 50, 20]])
     = Inr ((addNodes (setPosition VectorObject_init [0, 0, 1500, 1]) [[100, 50, 20]])
         \<lparr>rotationMatrix := [[1, 0, 0], [0, 1, 0], [0, 0, 1]],
          rotatedNodes := [[100, 50, 1520]]\<rparr>)
   \<and> world_vertices ((addNodes (setPosition VectorObject_init [0, 0, 1500, 1]) [[100, 50, 20]])
         \<lparr>rotationMatrix := [[1, 0, 0], [0, 1, 0], [0, 0, 1]],
          rotatedNodes := [[100, 50, 1520]]\<rparr>)
     = world_vertices ((addNodes (setPosition VectorObject_init [0, 0, 1500, 1]) [[100, 50, 20]])
         \<lparr>rotationMatrix := [], rotateSpeed := [5], surfaces := []\<rparr>)"
  using world_vertices_deterministic
    [of "addNodes (setPosition VectorObject_init [0, 0, 1500, 1]) [[100, 50, 20]]"
        "(addNodes (setPosition VectorObject_init [0, 0, 1500, 1]) [[100, 50, 20]])
           \<lparr>rotationMatrix := [], rotateSpeed := [5], surfaces := []\<rparr>"]
    build_and_rotate_sample
  by simp

section \<open>Depth ordering\<close>

lemma sort_reverse_Cons: "sort_reverse k (x # xs) = insort_desc k x (sort_reverse k xs)"
  by (simp add: sort_reverse_def)

lemma sort_reverse_Nil: "sort_reverse k [] = []"
  by (simp add: sort_reverse_def)

lemma mset_insort_desc: "mset (insort_desc k x ys) = add_mset x (mset ys)"
  by (induction ys) simp_all

lemma set_insort_desc: "set (insort_desc k x ys) = insert x (set ys)"
  by (induction ys) auto

lemma sorted_insort_desc:
  assumes "sorted_wrt (\<lambda>a b. k b \<le> k a) ys"
  shows "sorted_wrt (\<lambda>a b. k b \<le> k a) (insort_desc k x ys)"
  using assms
proof (induction ys)
  case Nil
  then show ?case by simp
next
  case (Cons y ys)
  show ?case
  proof (cases "k y \<le> k x")
    case True
    then show ?thesis using Cons.prems by auto
  next
    case False
    then show ?thesis using Cons by (auto simp: set_insort_desc)
  qed
qed

lemma filter_insort_desc_other:
  assumes "k x \<noteq> d"
  shows "filter (\<lambda>y. k y = d) (insort_desc k x ys) = filter (\<lambda>y. k y = d) ys"
  using assms by (induction ys) simp_all

lemma filter_insort_desc_same:
  "filter (\<lambda>y. k y = k x) (insort_desc k x ys) = x # filter (\<lambda>y. k y = k x) ys"
  by (induction ys) auto

lemma mset_sort_reverse: "mset (sort_reverse k xs) = mset xs"
  by (induction xs) (simp_all add: sort_reverse_Nil sort_reverse_Cons mset_insort_desc)

lemma sorted_sort_reverse: "sorted_wrt (\<lambda>a b. k b \<le> k a) (sort_reverse k xs)"
  by (induction xs) (simp_all add: sort_reverse_Nil sort_reverse_Cons sorted_insort_desc)

lemma stable_sort_reverse:
  "filter (\<lambda>y. k y = d) (sort_reverse k xs) = filter (\<lambda>y. k y = d) xs"
proof (induction xs)
  case Nil
  show ?case by (simp add: sort_reverse_Nil)
next
  case (Cons x xs)
  show ?case
  proof (cases "k x = d")
    case True
    then show ?thesis
      using Cons.IH filter_insort_desc_same [of k x "sort_reverse k xs"]
      by (simp add: sort_reverse_Cons)
  next
    case False
    then show ?thesis
      using Cons.IH by (simp add: sort_reverse_Cons filter_insort_desc_other)
  qed
qed

text \<open>
  Claim C6. \<open>sortSurfacesByZPos\<close> leaves the surface list ordered by depth descending
  (the most distant surface first), and the sort is stable: for every depth, the
  surfaces of that depth appear in the same relative order as before the sort. The
  sorted list holds the same surfaces as the list before.
\<close>

theorem sortSurfacesByZPos_stable_descending:
  "sorted_wrt (\<lambda>a b. zpos b \<le> zpos a) (surfaces (sortSurfacesByZPos obj))
   \<and> (\<forall>d. filter (\<lambda>s. zpos s = d) (surfaces (sortSurfacesByZPos obj))
            = filter (\<lambda>s. zpos s = d) (surfaces obj))
   \<and> mset (surfaces (sortSurfacesByZPos obj)) = mset (surfaces obj)"
  by (simp add: sortSurfacesByZPos_def sorted_sort_reverse stable_sort_reverse
      mset_sort_reverse)

section \<open>Surface depth\<close>

lemma py_index_valid:
  assumes "valid_index (length xs) i"
  shows "py_index xs i = Inr (xs ! nat (if i < 0 then int (length xs) + i else i))"
  using assms by (auto simp: py_index_def valid_index_def)

lemma valid_index_in_range:
  assumes "valid_index n i"
  shows "nat (if i < 0 then int n + i else i) < n"
  using assms by (auto simp: valid_index_def)

lemma np_index2_valid:
  assumes "valid_index (length rn) i" and "list_all (\<lambda>r. 3 \<le> length r) rn"
  shows "np_index2 rn i 2 = Inr (vertex_of rn i ! 2)"
proof -
  have "vertex_of rn i \<in> set rn"
    using valid_index_in_range [OF assms(1)] by (simp add: vertex_of_def)
  then have "3 \<le> length (vertex_of rn i)"
    using assms(2) by (simp add: list_all_iff)
  then have "py_index (vertex_of rn i) 2 = Inr (vertex_of rn i ! 2)"
    by (simp add: py_index_def)
  then show ?thesis
    using assms(1) by (simp add: np_index2_def py_index_valid vertex_of_def)
qed

lemma surface_zpos_mean:
  assumes "snodes s \<noteq> []" and "list_all (valid_index (length rn)) (snodes s)"
    and "list_all (\<lambda>r. 3 \<le> length r) rn"
  shows "surface_zpos rn s = Inr (s\<lparr>zpos := mean_z rn (snodes s)\<rparr>)"
proof -
  have "map_err (\<lambda>node. np_index2 rn node 2) (snodes s)
          = Inr (map (\<lambda>i. vertex_of rn i ! 2) (snodes s))"
    using assms(2,3) by (intro map_err_Inr) (simp add: np_index2_valid list_all_iff)
  then show ?thesis
    using assms(1) by (simp add: surface_zpos_def setZPos_def mean_z_def)
qed

lemma updateSurfaceZPos_mean:
  assumes "list_all (\<lambda>r. 3 \<le> length r) (rotatedNodes obj)"
    and "list_all (\<lambda>s. snodes s \<noteq> []
            \<and> list_all (valid_index (length (rotatedNodes obj))) (snodes s)) (surfaces obj)"
  shows "updateSurfaceZPos obj
           = Inr (obj\<lparr>surfaces :=
               map (\<lambda>s. s\<lparr>zpos := mean_z (rotatedNodes obj) (snodes s)\<rparr>) (surfaces obj)\<rparr>)"
proof -
  have "map_err (surface_zpos (rotatedNodes obj)) (surfaces obj)
          = Inr (map (\<lambda>s. s\<lparr>zpos := mean_z (rotatedNodes obj) (snodes s)\<rparr>) (surfaces obj))"
    using assms by (intro map_err_Inr) (simp add: surface_zpos_mean list_all_iff)
  then show ?thesis by (simp add: updateSurfaceZPos_def)
qed

lemma main_surfaces:
  "surfaces main_vobj =
     [VectorObjectSurface_init\<lparr>idnum := 0, color := (255, 255, 255), snodes := [0, 3, 2, 1]\<rparr>,
      VectorObjectSurface_init\<lparr>idnum := 1, color := (255, 255, 255), snodes := [4, 5, 6, 7]\<rparr>,
      VectorObjectSurface_init\<lparr>idnum := 2, color := (150, 150, 150), snodes := [0, 1, 5, 4]\<rparr>,
      VectorObjectSurface_init\<lparr>idnum := 3, color := (150, 150, 150), snodes := [3, 7, 6, 2]\<rparr>,
      VectorObjectSurface_init\<lparr>idnum := 4, color := (80, 80, 80), snodes := [0, 4, 7, 3]\<rparr>,
      VectorObjectSurface_init\<lparr>idnum := 5, color := (80, 80, 80), snodes := [1, 2, 6, 5]\<rparr>]"
  by (simp add: main_vobj_def Let_def addSurfaces_def addNodes_def setRotateSpeed_def
      setPosition_def VectorObject_init_def VectorObjectSurface_init_def)

lemma main_rotatedNodes: "rotatedNodes main_vobj = main_node_array"
  by (simp add: main_vobj_def Let_def addSurfaces_def addNodes_def setRotateSpeed_def
      setPosition_def VectorObject_init_def)

text \<open>
  Claim C5. For an object whose world-space vertices have three components each and
  whose surfaces all have a non-empty list of valid vertex indices, \<open>updateSurfaceZPos\<close>
  succeeds and sets the depth of every surface to the arithmetic mean of the world-space
  Z coordinates (column 2 of \<open>rotatedNodes\<close>) of the vertices the surface names; it
  changes nothing else.
\<close>

theorem updateSurfaceZPos_mean_depth:
  assumes "list_all (\<lambda>r. 3 \<le> length r) (rotatedNodes obj)"
    and "list_all (\<lambda>s. snodes s \<noteq> []
            \<and> list_all (valid_index (length (rotatedNodes obj))) (snodes s)) (surfaces obj)"
  shows "updateSurfaceZPos obj
           = Inr (obj\<lparr>surfaces :=
               map (\<lambda>s. s\<lparr>zpos := mean_z (rotatedNodes obj) (snodes s)\<rparr>) (surfaces obj)\<rparr>)"
  using assms by (rule updateSurfaceZPos_mean)

theorem updateSurfaceZPos_mean_depth_witness:
  "list_all (\<lambda>r. 3 \<le> length r) (rotatedNodes main_vobj)
   \<and> list_all (\<lambda>s. snodes s \<noteq> []
         \<and> list_all (valid_index (length (rotatedNodes main_vobj))) (snodes s))
        (surfaces main_vobj)
   \<and> map_sum id (map zpos \<circ> surfaces) (updateSurfaceZPos main_vobj)
       = Inr [0, 0, 0, 0, 100, - 100]"
proof -
  have h1: "list_all (\<lambda>r. 3 \<le> length r) (rotatedNodes main_vobj)"
    by (simp add: main_rotatedNodes main_node_array_def)
  have h2: "list_all (\<lambda>s. snodes s \<noteq> []
         \<and> list_all (valid_index (length (rotatedNodes main_vobj))) (snodes s))
        (surfaces main_vobj)"
    by (simp add: main_rotatedNodes main_node_array_def main_surfaces valid_index_def
        VectorObjectSurface_init_def)
  show ?thesis
    using h1 h2 updateSurfaceZPos_mean_depth [OF h1 h2]
    by (simp add: main_rotatedNodes main_node_array_def main_surfaces mean_z_def
        vertex_of_def VectorObjectSurface_init_def)
qed


lemma map_err_list_all2:
  assumes "map_err f xs = Inr ys"
  shows "list_all2 (\<lambda>x y. f x = Inr y) xs ys"
  using assms
proof (induction xs arbitrary: ys)
  case Nil
  then show ?case by simp
next
  case (Cons x xs)
  then show ?case by (auto split: sum.splits)
qed

lemma surface_zpos_without_depth:
  assumes "surface_zpos rn s = Inr s'"
  shows "without_depth s' = without_depth s"
  using assms
  by (auto simp: surface_zpos_def setZPos_def without_depth_def split: sum.splits if_splits)

lemma updateSurfaceZPos_keeps:
  assumes "updateSurfaceZPos obj = Inr obj'"
  shows "map without_depth (surfaces obj') = map without_depth (surfaces obj)
         \<and> obj'\<lparr>surfaces := surfaces obj\<rparr> = obj"
proof -
  obtain ss where ss: "map_err (surface_zpos (rotatedNodes obj)) (surfaces obj) = Inr ss"
    and o: "obj' = obj\<lparr>surfaces := ss\<rparr>"
    using assms by (auto simp: updateSurfaceZPos_def split: sum.splits)
  have "list_all2 (\<lambda>s s'. surface_zpos (rotatedNodes obj) s = Inr s') (surfaces obj) ss"
    using ss by (rule map_err_list_all2)
  then have "list_all2 (\<lambda>s s'. without_depth s' = without_depth s) (surfaces obj) ss"
    by (rule list_all2_mono) (rule surface_zpos_without_depth)
  then have "map without_depth ss = map without_depth (surfaces obj)"
    by (induction rule: list_all2_induct) simp_all
  then show ?thesis using o by simp
qed

lemma depth_pass_keeps:
  assumes "depth_pass obj = Inr obj'"
  shows "mset (map without_depth (surfaces obj')) = mset (map without_depth (surfaces obj))
         \<and> length (surfaces obj') = length (surfaces obj)
         \<and> obj'\<lparr>surfaces := surfaces obj\<rparr> = obj"
proof -
  obtain o1 where u: "updateSurfaceZPos obj = Inr o1" and o: "obj' = sortSurfacesByZPos o1"
    using assms by (auto simp: depth_pass_def split: sum.splits)
  have k: "map without_depth (surfaces o1) = map without_depth (surfaces obj)"
    and r: "o1\<lparr>surfaces := surfaces obj\<rparr> = obj"
    using updateSurfaceZPos_keeps [OF u] by simp_all
  have "mset (map without_depth (surfaces obj'))
          = image_mset without_depth (mset (surfaces o1))"
    by (simp add: o sortSurfacesByZPos_def mset_sort_reverse)
  also have "\<dots> = mset (map without_depth (surfaces obj))"
    using k by (metis mset_map)
  finally have m: "mset (map without_depth (surfaces obj'))
                     = mset (map without_depth (surfaces obj))" .
  have l: "length (surfaces obj') = length (surfaces obj)"
    using m by (metis length_map size_mset)
  have "obj'\<lparr>surfaces := surfaces obj\<rparr> = obj"
    using r by (simp add: o sortSurfacesByZPos_def)
  with m l show ?thesis by simp
qed

lemma depth_pass_succeeds:
  assumes "list_all (\<lambda>r. 3 \<le> length r) (rotatedNodes obj)"
    and "list_all (\<lambda>s. snodes s \<noteq> []
            \<and> list_all (valid_index (length (rotatedNodes obj))) (snodes s)) (surfaces obj)"
  shows "\<exists>obj'. depth_pass obj = Inr obj'"
  using updateSurfaceZPos_mean [OF assms] by (simp add: depth_pass_def)

lemma depth_pass_main:
  "depth_pass main_vobj
     = Inr (main_vobj\<lparr>surfaces :=
         [(surfaces main_vobj ! 4)\<lparr>zpos := 100\<rparr>, (surfaces main_vobj ! 0)\<lparr>zpos := 0\<rparr>,
          (surfaces main_vobj ! 1)\<lparr>zpos := 0\<rparr>, (surfaces main_vobj ! 2)\<lparr>zpos := 0\<rparr>,
          (surfaces main_vobj ! 3)\<lparr>zpos := 0\<rparr>, (surfaces main_vobj ! 5)\<lparr>zpos := - 100\<rparr>]\<rparr>)"
proof -
  have h1: "list_all (\<lambda>r. 3 \<le> length r) (rotatedNodes main_vobj)"
    by (simp add: main_rotatedNodes main_node_array_def)
  have h2: "list_all (\<lambda>s. snodes s \<noteq> []
         \<and> list_all (valid_index (length (rotatedNodes main_vobj))) (snodes s))
        (surfaces main_vobj)"
    by (simp add: main_rotatedNodes main_node_array_def main_surfaces valid_index_def
        VectorObjectSurface_init_def)
  show ?thesis
    unfolding depth_pass_def updateSurfaceZPos_mean [OF h1 h2]
    by (simp add: sortSurfacesByZPos_def sort_reverse_def main_rotatedNodes
        main_node_array_def main_surfaces mean_z_def vertex_of_def
        VectorObjectSurface_init_def)
qed

text \<open>
  Claim C10. The depth pass (\<open>updateSurfaceZPos\<close>, then \<open>sortSurfacesByZPos\<close>) succeeds
  on every object with valid surfaces, and whenever it succeeds the surface list it
  leaves is, depths aside, a permutation of the list before: no surface is added,
  removed or duplicated, no field of a surface other than \<open>zpos\<close> changes, and no other
  field of the object changes.
\<close>

theorem depth_pass_permutation:
  "(list_all (\<lambda>r. 3 \<le> length r) (rotatedNodes obj)
      \<and> list_all (\<lambda>s. snodes s \<noteq> []
            \<and> list_all (valid_index (length (rotatedNodes obj))) (snodes s)) (surfaces obj)
      \<longrightarrow> (\<exists>obj'. depth_pass obj = Inr obj'))
   \<and> (\<forall>obj'. depth_pass obj = Inr obj' \<longrightarrow>
         mset (map without_depth (surfaces obj')) = mset (map without_depth (surfaces obj))
         \<and> length (surfaces obj') = length (surfaces obj)
         \<and> obj'\<lparr>surfaces := surfaces obj\<rparr> = obj)"
  using depth_pass_succeeds [of obj] depth_pass_keeps [of obj] by blast


theorem depth_pass_permutation_witness:
  "list_all (\<lambda>r. 3 \<le> length r) (rotatedNodes main_vobj)
   \<and> list_all (\<lambda>s. snodes s \<noteq> []
         \<and> list_all (valid_index (length (rotatedNodes main_vobj))) (snodes s))
        (surfaces main_vobj)
   \<and> depth_pass main_vobj
       = Inr (main_vobj\<lparr>surfaces :=
         [(surfaces main_vobj ! 4)\<lparr>zpos := 100\<rparr>, (surfaces main_vobj ! 0)\<lparr>zpos := 0\<rparr>,
          (surfaces main_vobj ! 1)\<lparr>zpos := 0\<rparr>, (surfaces main_vobj ! 2)\<lparr>zpos := 0\<rparr>,
          (surfaces main_vobj ! 3)\<lparr>zpos := 0\<rparr>, (surfaces main_vobj ! 5)\<lparr>zpos := - 100\<rparr>]\<rparr>)
   \<and> mset (map without_depth
         [(surfaces main_vobj ! 4)\<lparr>zpos := 100\<rparr>, (surfaces main_vobj ! 0)\<lparr>zpos := 0\<rparr>,
          (surfaces main_vobj ! 1)\<lparr>zpos := 0\<rparr>, (surfaces main_vobj ! 2)\<lparr>zpos := 0\<rparr>,
          (surfaces main_vobj ! 3)\<lparr>zpos := 0\<rparr>, (surfaces main_vobj ! 5)\<lparr>zpos := - 100\<rparr>])
       = mset (map without_depth (surfaces main_vobj))"
proof -
  have h1: "list_all (\<lambda>r. 3 \<le> length r) (rotatedNodes main_vobj)"
    by (simp add: main_rotatedNodes main_node_array_def)
  have h2: "list_all (\<lambda>s. snodes s \<noteq> []
         \<and> list_all (valid_index (length (rotatedNodes main_vobj))) (snodes s))
        (surfaces main_vobj)"
    by (simp add: main_rotatedNodes main_node_array_def main_surfaces valid_index_def
        VectorObjectSurface_init_def)
  note d = depth_pass_main
  from depth_pass_permutation [of main_vobj] d
  have "mset (map without_depth (surfaces (main_vobj\<lparr>surfaces :=
         [(surfaces main_vobj ! 4)\<lparr>zpos := 100\<rparr>, (surfaces main_vobj ! 0)\<lparr>zpos := 0\<rparr>,
          (surfaces main_vobj ! 1)\<lparr>zpos := 0\<rparr>, (surfaces main_vobj ! 2)\<lparr>zpos := 0\<rparr>,
          (surfaces main_vobj ! 3)\<lparr>zpos := 0\<rparr>, (surfaces main_vobj ! 5)\<lparr>zpos := - 100\<rparr>]\<rparr>)))
       = mset (map without_depth (surfaces main_vobj))"
    by blast
  then show ?thesis using h1 h2 d by simp
qed

section \<open>Pause and resume\<close>






































end
